theory Spec2Isabelle
  imports Main
begin

section \<open>The document tree and the heading post-processor\<close>

text \<open>
  An \<^verbatim>\<open>xml.etree.ElementTree.Element\<close>: tag, attribute dictionary (insertion ordered,
  looked up with \<open>map_of\<close>), leading text, trailing text (both may be \<^verbatim>\<open>None\<close>) and the
  ordered children. The output tree is a tree: no node is the child of two parents, so a
  value of the datatype stands for the object graph.
\<close>

datatype element = Element (tag: string) (attrib: "(string \<times> string) list")
  (el_text: "string option") (tail: "string option") (children: "element list")

text \<open>The Python idiom \<^verbatim>\<open>s or ""\<close> on an optional string.\<close>

definition or_empty :: "string option \<Rightarrow> string" where
  "or_empty s = (case s of None \<Rightarrow> [] | Some t \<Rightarrow> t)"

text \<open>
  \<^verbatim>\<open>_HeadingsPostProcessor._remove_duplicated_headings(parent)\<close>.

  \<^verbatim>\<open>reversed(parent)\<close> walks the child indices from \<open>len(parent) - 1\<close> down to \<open>0\<close>;
  removing the child at the current index leaves the smaller indices in place, so every
  child is visited once, last to first. \<open>rdh_loop els\<close> is that loop on the child list
  \<open>els\<close>: it handles the later siblings first and returns the children that remain
  together with \<open>carry_text\<close> as it stands when the loop leaves the first child.
  The recursive call on a kept child never touches that child's tail, which the loop has
  set just before.
\<close>

fun remove_duplicated_headings :: "element \<Rightarrow> element"
and rdh_loop :: "element list \<Rightarrow> element list \<times> string" where
  "remove_duplicated_headings (Element tg atts tx tal chs) =
     (case rdh_loop chs of (chs', carry_text) \<Rightarrow>
        Element tg atts (if carry_text \<noteq> [] then Some (or_empty tx @ carry_text) else tx) tal chs')"
| "rdh_loop [] = ([], [])"
| "rdh_loop (Element tg atts tx tal chs # els) =
     (case rdh_loop els of (els', carry_text) \<Rightarrow>
        if tg = ''div'' \<and> map_of atts ''class'' = Some ''mkdocstrings''
        then (els', or_empty tx @ carry_text)
        else if carry_text \<noteq> []
        then (remove_duplicated_headings
                (Element tg atts tx (Some (or_empty tal @ carry_text)) chs) # els', [])
        else (remove_duplicated_headings (Element tg atts tx tal chs) # els', carry_text))"

text \<open>\<^verbatim>\<open>_HeadingsPostProcessor.run(root)\<close>.\<close>

definition headings_post_processor_run :: "element \<Rightarrow> element" where
  "headings_post_processor_run root = remove_duplicated_headings root"

subsection \<open>Vocabulary for the properties of the pass\<close>

text \<open>The test of the loop: a duplicate-heading container.\<close>

definition is_duplicate_container :: "element \<Rightarrow> bool" where
  "is_duplicate_container el =
     (tag el = ''div'' \<and> map_of (attrib el) ''class'' = Some ''mkdocstrings'')"

text \<open>\<^verbatim>\<open>if carry: x = (x or "") + carry\<close>, as a function of the old value.\<close>

definition append_carry :: "string option \<Rightarrow> string \<Rightarrow> string option" where
  "append_carry t carry = (if carry \<noteq> [] then Some (or_empty t @ carry) else t)"

definition set_tail :: "element \<Rightarrow> string option \<Rightarrow> element" where
  "set_tail el t = Element (tag el) (attrib el) (el_text el) t (children el)"

text \<open>
  The leading texts of the run of containers that starts a list of siblings, in document
  order: what the containers directly after a node hand to it.
\<close>

fun carried_text :: "element list \<Rightarrow> string" where
  "carried_text [] = []"
| "carried_text (el # els) =
     (if is_duplicate_container el then or_empty (el_text el) @ carried_text els else [])"

text \<open>
  The children after the pass, read forwards: containers are dropped, every other child is
  processed itself and receives, at the end of its tail, the text carried from the
  containers that directly follow it.
\<close>

fun dedup_children :: "element list \<Rightarrow> element list" where
  "dedup_children [] = []"
| "dedup_children (el # els) =
     (if is_duplicate_container el then dedup_children els
      else set_tail (remove_duplicated_headings el) (append_carry (tail el) (carried_text els))
             # dedup_children els)"

text \<open>No container below the node (the node itself has no parent to be removed from).\<close>

fun no_duplicates :: "element \<Rightarrow> bool"
and no_duplicates_list :: "element list \<Rightarrow> bool" where
  "no_duplicates (Element tg atts tx tal chs) = no_duplicates_list chs"
| "no_duplicates_list [] = True"
| "no_duplicates_list (el # els) =
     (\<not> is_duplicate_container el \<and> no_duplicates el \<and> no_duplicates_list els)"

text \<open>
  The text content of a node in document order (\<^verbatim>\<open>"".join(el.itertext())\<close>), and the part
  of it the pass is meant to keep: a container contributes its leading text only.
\<close>

fun inner_text :: "element \<Rightarrow> string"
and inner_children :: "element list \<Rightarrow> string" where
  "inner_text (Element tg atts tx tal chs) = or_empty tx @ inner_children chs"
| "inner_children [] = []"
| "inner_children (el # els) = inner_text el @ or_empty (tail el) @ inner_children els"

fun kept_text :: "element \<Rightarrow> string"
and kept_children :: "element list \<Rightarrow> string" where
  "kept_text (Element tg atts tx tal chs) = or_empty tx @ kept_children chs"
| "kept_children [] = []"
| "kept_children (el # els) =
     (if is_duplicate_container el then or_empty (el_text el)
      else kept_text el @ or_empty (tail el)) @ kept_children els"

section \<open>The table-of-contents labels\<close>

text \<open>
  A token of \<^verbatim>\<open>md.toc_tokens\<close>: a dictionary with the keys \<^verbatim>\<open>level\<close>, \<^verbatim>\<open>id\<close>, \<^verbatim>\<open>name\<close>,
  \<^verbatim>\<open>children\<close> and, optionally, \<^verbatim>\<open>data-toc-label\<close> (\<open>None\<close> is what
  \<^verbatim>\<open>token.get("data-toc-label")\<close> returns for a token without the key).
\<close>

datatype toc_token = TocToken (toc_level: nat) (toc_id: string) (toc_name: string)
  (data_toc_label: "string option") (toc_children: "toc_token list")

text \<open>
  \<^verbatim>\<open>_TocLabelsTreeProcessor._override_toc_labels(tokens)\<close>: the condition
  \<^verbatim>\<open>(label := token.get("data-toc-label")) and token["name"] != label\<close> holds for a label
  that is truthy (a non-empty string) and differs from the name.
\<close>

fun override_toc_labels :: "toc_token list \<Rightarrow> toc_token list" where
  "override_toc_labels [] = []"
| "override_toc_labels (TocToken lv i n l chs # tokens) =
     TocToken lv i
       (case l of None \<Rightarrow> n | Some label \<Rightarrow> if label \<noteq> [] \<and> n \<noteq> label then label else n)
       l (override_toc_labels chs)
     # override_toc_labels tokens"

text \<open>Every token of a forest with its own fields, parents before children.\<close>

fun flatten :: "toc_token list \<Rightarrow> (nat \<times> string \<times> string \<times> string option) list" where
  "flatten [] = []"
| "flatten (TocToken lv i n l chs # tokens) = (lv, i, n, l) # flatten chs @ flatten tokens"

text \<open>The forest with every display name blanked: its shape and all other fields.\<close>

fun erase_names :: "toc_token list \<Rightarrow> toc_token list" where
  "erase_names [] = []"
| "erase_names (TocToken lv i n l chs # tokens) =
     TocToken lv i [] l (erase_names chs) # erase_names tokens"

section \<open>Configuration values and option layering\<close>

text \<open>
  The values \<^verbatim>\<open>yaml.safe_load\<close> builds: null, booleans, integers, strings, sequences and
  mappings with string keys (a mapping is an insertion-ordered dictionary, looked up with
  \<open>map_of\<close>). Floats and timestamps are left out; no operation below looks inside a
  scalar.
\<close>

datatype yaml = YNull | YBool bool | YInt int | YStr string | YSeq "yaml list"
  | YMap "(string \<times> yaml) list"

text \<open>Python truthiness and \<^verbatim>\<open>a or b\<close>.\<close>

fun truthy :: "yaml \<Rightarrow> bool" where
  "truthy YNull = False"
| "truthy (YBool b) = b"
| "truthy (YInt i) = (i \<noteq> 0)"
| "truthy (YStr s) = (s \<noteq> [])"
| "truthy (YSeq xs) = (xs \<noteq> [])"
| "truthy (YMap kvs) = (kvs \<noteq> [])"

definition py_or :: "yaml \<Rightarrow> yaml \<Rightarrow> yaml" where
  "py_or a b = (if truthy a then a else b)"

text \<open>The exceptions the modelled code can raise or let through.\<close>

datatype exn = YAMLError string | AttributeError | TypeError | KeyError string | IndexError
  | PluginError string | TemplateNotFound string

text \<open>\<^verbatim>\<open>d.get(key, default)\<close>: only a mapping has the method.\<close>

fun dict_get :: "yaml \<Rightarrow> string \<Rightarrow> yaml \<Rightarrow> exn + yaml" where
  "dict_get (YMap kvs) key dflt = Inr (case map_of kvs key of Some v \<Rightarrow> v | None \<Rightarrow> dflt)"
| "dict_get other key dflt = Inl AttributeError"

text \<open>
  \<^verbatim>\<open>collections.ChainMap\<close>: \<^verbatim>\<open>ChainMap(*maps)[key]\<close> tries \<^verbatim>\<open>mapping[key]\<close> on each map in
  order and moves on only on a \<^verbatim>\<open>KeyError\<close>; when every map misses the key it raises
  \<^verbatim>\<open>KeyError\<close>. A layer is a plain value (\<open>Dict\<close>) or another chain.
\<close>

datatype options = Dict yaml | ChainMap "options list"

fun getitem :: "options \<Rightarrow> string \<Rightarrow> exn + yaml"
and chain_getitem :: "options list \<Rightarrow> string \<Rightarrow> exn + yaml" where
  "getitem (Dict (YMap kvs)) key =
     (case map_of kvs key of Some v \<Rightarrow> Inr v | None \<Rightarrow> Inl (KeyError key))"
| "getitem (Dict other) key = Inl TypeError"
| "getitem (ChainMap maps) key = chain_getitem maps key"
| "chain_getitem [] key = Inl (KeyError key)"
| "chain_getitem (m # maps) key =
     (case getitem m key of Inl (KeyError k) \<Rightarrow> chain_getitem maps key | r \<Rightarrow> r)"

text \<open>
  Lines 203 to 206 of \<^verbatim>\<open>_process_block\<close>:
  \<^verbatim>\<open>options = ChainMap(local_options, global_options)\<close> and, when \<^verbatim>\<open>heading_level\<close> is
  truthy, \<^verbatim>\<open>options = ChainMap(options, {"heading_level": heading_level})  # like setdefault\<close>.
\<close>

definition build_options :: "yaml \<Rightarrow> yaml \<Rightarrow> int \<Rightarrow> options" where
  "build_options local_options global_options heading_level =
     (let options = ChainMap [Dict local_options, Dict global_options]
      in if heading_level \<noteq> 0
         then ChainMap [options, Dict (YMap [(''heading_level'', YInt heading_level)])]
         else options)"

section \<open>The instruction matcher\<close>

text \<open>\<^verbatim>\<open>s.startswith(p)\<close>, \<^verbatim>\<open>s.split("\n")\<close> and \<^verbatim>\<open>"\n".join(lines)\<close>.\<close>

definition startswith :: "string \<Rightarrow> string \<Rightarrow> bool" where
  "startswith s p = (take (length p) s = p)"

fun split_nl :: "string \<Rightarrow> string list" where
  "split_nl [] = [[]]"
| "split_nl (c # cs) =
     (if c = CHR 0x0A then [] # split_nl cs
      else (case split_nl cs of [] \<Rightarrow> [[c]] | l # ls \<Rightarrow> (c # l) # ls))"

fun join_nl :: "string list \<Rightarrow> string" where
  "join_nl [] = []"
| "join_nl [l] = l"
| "join_nl (l # ls) = l @ CHR 0x0A # join_nl ls"

text \<open>
  The pattern \<^verbatim>\<open>^(?P<heading>#{1,6} *|)::: ?(?P<name>.+?) *$\<close> with \<^verbatim>\<open>re.MULTILINE\<close>.
  \<^verbatim>\<open>^\<close> matches at the start of the block and after every newline, \<^verbatim>\<open>$\<close> at the end of
  the block and before every newline, and \<^verbatim>\<open>.\<close> matches no newline: a match is one whole
  line, and \<^verbatim>\<open>search\<close> returns the first line that matches.

  On one line: the heading group is one to six \<open>#\<close> and the spaces after them, or empty;
  then \<open>:::\<close>; then \<^verbatim>\<open> ?\<close> takes one space when something is left for the name after it;
  the lazy \<^verbatim>\<open>.+?\<close> takes the shortest non-empty text after which only spaces remain.
\<close>

record regex_match =
  m_start :: nat
  m_end :: nat
  m_heading :: string
  m_name :: string

definition match_name :: "string \<Rightarrow> string option" where
  "match_name r =
     (if r = [] then None
      else let stripped = rev (dropWhile (\<lambda>c. c = CHR '' '') (rev r))
           in Some (if stripped = [] then [hd r] else stripped))"

definition match_after_marker :: "string \<Rightarrow> string option" where
  "match_after_marker r =
     (if startswith r '' '' \<and> tl r \<noteq> [] then match_name (tl r) else match_name r)"

definition match_line :: "string \<Rightarrow> (string \<times> string) option" where
  "match_line line =
     (let hashes = takeWhile (\<lambda>c. c = CHR ''#'') line;
          after_hashes = dropWhile (\<lambda>c. c = CHR ''#'') line;
          spaces = takeWhile (\<lambda>c. c = CHR '' '') after_hashes;
          after_heading = dropWhile (\<lambda>c. c = CHR '' '') after_hashes
      in if hashes \<noteq> [] then
           (if length hashes \<le> 6 \<and> startswith after_heading '':::''
            then map_option (Pair (hashes @ spaces)) (match_after_marker (drop 3 after_heading))
            else None)
         else if startswith line '':::''
         then map_option (Pair []) (match_after_marker (drop 3 line))
         else None)"

fun search_lines :: "nat \<Rightarrow> string list \<Rightarrow> regex_match option" where
  "search_lines pos [] = None"
| "search_lines pos (line # lines) =
     (case match_line line of
        Some (h, n) \<Rightarrow>
          Some \<lparr>m_start = pos, m_end = pos + length line, m_heading = h, m_name = n\<rparr>
      | None \<Rightarrow> search_lines (pos + length line + 1) lines)"

definition regex_search :: "string \<Rightarrow> regex_match option" where
  "regex_search block = search_lines 0 (split_nl block)"

text \<open>\<^verbatim>\<open>AutoDocProcessor.test(parent, block)\<close>.\<close>

definition test :: "string \<Rightarrow> bool" where
  "test block = (regex_search block \<noteq> None)"

text \<open>
  \<^verbatim>\<open>BlockProcessor.detab(text)\<close>, inherited from Python-Markdown, with the default
  \<^verbatim>\<open>tab_length\<close> of 4: the leading lines that start with four spaces lose them, blank lines
  among them become empty, and the first other line ends the region; the result is the
  de-indented region and the remaining lines, both joined with newlines.
  \<^verbatim>\<open>not line.strip()\<close> holds when the line has whitespace only; a character stands
  for its code point, and these are the whitespace code points below 256.
\<close>

definition is_space :: "char \<Rightarrow> bool" where
  "is_space c = (c \<in> {CHR '' '', CHR 0x09, CHR 0x0A, CHR 0x0B, CHR 0x0C, CHR 0x0D,
                       CHR 0x1C, CHR 0x1D, CHR 0x1E, CHR 0x1F, CHR 0x85, CHR 0xA0})"

fun detab_lines :: "string list \<Rightarrow> string list" where
  "detab_lines [] = []"
| "detab_lines (line # lines) =
     (if startswith line ''    '' then drop 4 line # detab_lines lines
      else if list_all is_space line then [] # detab_lines lines
      else [])"

definition detab :: "string \<Rightarrow> string \<times> string" where
  "detab block =
     (let lines = split_nl block; newtext = detab_lines lines
      in (join_nl newtext, join_nl (drop (length newtext) lines)))"

text \<open>
  Lines 108 to 121 of \<^verbatim>\<open>AutoDocProcessor.run\<close>, on the popped block \<open>block0\<close> and the
  blocks left after the pop: what goes back to the generic parser (the text before the
  match, when the match does not start the block), the match, the configuration text, the
  rest to requeue, and the pending blocks.
\<close>

record split_block =
  prefix_block :: "string option"
  matched :: "regex_match option"
  yaml_block :: string
  remainder :: string
  pending_blocks :: "string list"

definition match_block :: "string \<Rightarrow> string list \<Rightarrow> split_block" where
  "match_block block0 blocks =
     (let match = regex_search block0;
          leading = (case match of
                      Some m \<Rightarrow> if m_start m > 0 then Some (take (m_start m) block0) else None
                    | None \<Rightarrow> None);
          block1 = (case match of Some m \<Rightarrow> drop (m_end m) block0 | None \<Rightarrow> block0);
          (block2, the_rest) = detab block1
      in if block2 = [] \<and> blocks \<noteq> []
            \<and> (startswith (hd blocks) ''    handler:'' \<or> startswith (hd blocks) ''    options:'')
         then \<lparr>prefix_block = leading, matched = match, yaml_block = hd blocks,
                remainder = the_rest, pending_blocks = tl blocks\<rparr>
         else \<lparr>prefix_block = leading, matched = match, yaml_block = block2,
                remainder = the_rest, pending_blocks = blocks\<rparr>)"

text \<open>Lines 168 to 172: \<^verbatim>\<open>if the_rest: blocks.insert(0, the_rest)\<close>.\<close>

definition requeue :: "string \<Rightarrow> string list \<Rightarrow> string list" where
  "requeue the_rest blocks = (if the_rest \<noteq> [] then the_rest # blocks else blocks)"

section \<open>Backends, inventory and the processor's state\<close>

text \<open>
  Modelled from the spec: the backend capability interface
  (\<^verbatim>\<open>mkdocstrings.handlers.base.BaseHandler\<close> is not among the sources).
  \<open>collect\<close> returns the collected item or fails with a \<^verbatim>\<open>CollectionError\<close> (\<open>Inl\<close>, with
  its message); \<open>render\<close> returns the markup or fails with \<^verbatim>\<open>TemplateNotFound\<close> (\<open>Inl\<close>,
  with the template's name); \<open>get_headings\<close> gives the heading nodes of an item,
  \<open>get_anchors\<close> its anchor names. The item type is the backend's own.
\<close>

record 'item handler =
  collect :: "string \<Rightarrow> options \<Rightarrow> string + 'item"
  render :: "'item \<Rightarrow> options \<Rightarrow> string + string"
  get_headings :: "'item \<Rightarrow> element list"
  get_anchors :: "'item \<Rightarrow> string list"
  domain :: string
  fallback_config :: yaml

record inventory_item =
  item_name :: string
  item_domain :: string
  item_role :: string
  item_priority :: nat
  item_uri :: string

text \<open>
  The inventory is a dictionary from names to items; \<^verbatim>\<open>name in inventory\<close> asks for the key.
\<close>

type_synonym inventory = "(string \<times> inventory_item) list"

definition contains :: "inventory \<Rightarrow> string \<Rightarrow> bool" where
  "contains items n = (map_of items n \<noteq> None)"

definition names :: "inventory \<Rightarrow> string set" where
  "names items = set (map fst items)"

text \<open>
  What the processor is given and does not define, as parameters: the configuration parser
  (\<^verbatim>\<open>yaml.safe_load\<close>, which raises a \<^verbatim>\<open>YAMLError\<close> on text it cannot parse); the three
  lookups of the handlers container, each of which may raise; the inventory's
  \<^verbatim>\<open>register(...)\<close>, as the store it leaves; \<^verbatim>\<open>autorefs.current_page\<close>; the generic
  parser's \<^verbatim>\<open>parseBlocks(parent, blocks)\<close>, as the tree it leaves; and the placeholder the
  HTML stash hands out for its \<open>n\<close>-th entry.
\<close>

record 'item env =
  safe_load :: "string \<Rightarrow> exn + yaml"
  get_handler_name :: "yaml \<Rightarrow> exn + string"
  get_handler_config :: "string \<Rightarrow> exn + yaml"
  get_handler :: "string \<Rightarrow> yaml \<Rightarrow> exn + 'item handler"
  inventory_register :: "inventory_item \<Rightarrow> inventory \<Rightarrow> inventory"
  current_page :: "string option"
  parseBlocks :: "element \<Rightarrow> string list \<Rightarrow> element"
  get_placeholder :: "nat \<Rightarrow> string"

text \<open>
  What the processor changes: its own \<^verbatim>\<open>_updated_envs\<close>, the calls of
  \<^verbatim>\<open>handler._update_env\<close> made so far (by handler name, oldest first), the HTML stash,
  the anchors given to \<^verbatim>\<open>autorefs.register_anchor\<close>, the calls of
  \<^verbatim>\<open>inventory.register\<close> made so far (oldest first), and the inventory. An exception
  leaves these as they are when it is raised: a failure is the exception together with
  the state at that moment.
\<close>

record state =
  updated_envs :: "string set"
  env_updates :: "string list"
  html_stash :: "string list"
  autorefs_anchors :: "(string \<times> string) list"
  register_calls :: "inventory_item list"
  inventory :: inventory

text \<open>\<^verbatim>\<open>AutoDocProcessor.__init__\<close> (line 84) starts with no updated environment.\<close>

definition init :: "inventory \<Rightarrow> state" where
  "init items = \<lparr>updated_envs = {}, env_updates = [], html_stash = [],
                 autorefs_anchors = [], register_calls = [], inventory = items\<rparr>"

text \<open>One call \<^verbatim>\<open>self._handlers.inventory.register(...)\<close>.\<close>

definition register :: "'item env \<Rightarrow> inventory_item \<Rightarrow> state \<Rightarrow> state" where
  "register env item st =
     st\<lparr>register_calls := register_calls st @ [item],
        inventory := inventory_register env item (inventory st)\<rparr>"

section \<open>The block resolver\<close>

text \<open>Line 194: \<^verbatim>\<open>config = yaml.safe_load(yaml_block) or {}\<close>, with no handler around it.\<close>

definition load_config :: "'item env \<Rightarrow> string \<Rightarrow> exn + yaml" where
  "load_config env text_block =
     (case safe_load env text_block of
        Inl e \<Rightarrow> Inl e
      | Inr loaded \<Rightarrow> Inr (py_or loaded (YMap [])))"

text \<open>Lines 217 to 220: the environment of a handler name is updated once.\<close>

definition update_env :: "string \<Rightarrow> state \<Rightarrow> state" where
  "update_env handler_name st =
     (if handler_name \<notin> updated_envs st
      then st\<lparr>env_updates := env_updates st @ [handler_name],
              updated_envs := insert handler_name (updated_envs st)\<rparr>
      else st)"

text \<open>
  Lines 195 to 232 of \<^verbatim>\<open>_process_block\<close>, on the loaded configuration. A
  \<^verbatim>\<open>CollectionError\<close> is turned into a \<^verbatim>\<open>PluginError\<close>; a \<^verbatim>\<open>TemplateNotFound\<close> is raised
  again, after the environment update. The log messages are left out.
\<close>

definition resolve_block ::
  "'item env \<Rightarrow> string \<Rightarrow> yaml \<Rightarrow> int \<Rightarrow> state
     \<Rightarrow> (exn \<times> state) + (string \<times> 'item handler \<times> 'item \<times> state)" where
  "resolve_block env identifier config heading_level st =
     (case get_handler_name env config of
        Inl e \<Rightarrow> Inl (e, st)
      | Inr handler_name \<Rightarrow>
     (case get_handler_config env handler_name of
        Inl e \<Rightarrow> Inl (e, st)
      | Inr handler_config \<Rightarrow>
     (case get_handler env handler_name handler_config of
        Inl e \<Rightarrow> Inl (e, st)
      | Inr handler \<Rightarrow>
     (case dict_get handler_config ''options'' (YMap []) of
        Inl e \<Rightarrow> Inl (e, st)
      | Inr global_options \<Rightarrow>
     (case dict_get config ''options'' (YMap []) of
        Inl e \<Rightarrow> Inl (e, st)
      | Inr local_options \<Rightarrow>
     (let options = build_options local_options global_options heading_level
      in case collect handler identifier options of
           Inl msg \<Rightarrow>
             Inl (PluginError (''Could not collect '' @ [CHR 0x27] @ identifier @ [CHR 0x27]),
                  st)
         | Inr data \<Rightarrow>
       (let st' = update_env handler_name st
        in case render handler data options of
             Inl template \<Rightarrow> Inl (TemplateNotFound template, st')
           | Inr rendered \<Rightarrow> Inr (rendered, handler, data, st'))))))))"

text \<open>\<^verbatim>\<open>AutoDocProcessor._process_block(identifier, yaml_block, heading_level)\<close>.\<close>

definition process_block ::
  "'item env \<Rightarrow> string \<Rightarrow> string \<Rightarrow> int \<Rightarrow> state
     \<Rightarrow> (exn \<times> state) + (string \<times> 'item handler \<times> 'item \<times> state)" where
  "process_block env identifier text_block heading_level st =
     (case load_config env text_block of
        Inl e \<Rightarrow> Inl (e, st)
      | Inr config \<Rightarrow> resolve_block env identifier config heading_level st)"

text \<open>
  The handler name a configuration text resolves to (lines 194 and 195), as a list: empty
  when the text does not load or the name lookup raises.
\<close>

definition handler_name_of :: "'item env \<Rightarrow> string \<Rightarrow> string list" where
  "handler_name_of env text_block =
     (case load_config env text_block of
        Inl e \<Rightarrow> []
      | Inr config \<Rightarrow>
          (case get_handler_name env config of Inl e \<Rightarrow> [] | Inr n \<Rightarrow> [n]))"

text \<open>
  A document-processing session, as far as the block resolver sees it: the calls of
  \<^verbatim>\<open>_process_block\<close> (identifier, configuration text, heading level) in order, on one
  processor; the first exception ends it.
\<close>

fun process_blocks ::
  "'item env \<Rightarrow> (string \<times> string \<times> int) list \<Rightarrow> state \<Rightarrow> (exn \<times> state) + state" where
  "process_blocks env [] st = Inr st"
| "process_blocks env ((identifier, text_block, heading_level) # calls) st =
     (case process_block env identifier text_block heading_level st of
        Inl failure \<Rightarrow> Inl failure
      | Inr (rendered, handler, data, st') \<Rightarrow> process_blocks env calls st')"

text \<open>
  The handler names for which \<^verbatim>\<open>_update_env\<close> is called when the names \<open>ns\<close> are resolved
  in this order on a processor that has updated the environments in \<open>seen\<close>.
\<close>

fun hook_calls :: "string list \<Rightarrow> string set \<Rightarrow> string list" where
  "hook_calls [] seen = []"
| "hook_calls (n # ns) seen =
     (if n \<in> seen then hook_calls ns seen else n # hook_calls ns (insert n seen))"

section \<open>The anchor registrar and \<open>run\<close>\<close>

text \<open>Lines 156 to 164: the loop over \<^verbatim>\<open>handler.get_anchors(data_object)\<close>.\<close>

fun register_anchors ::
  "'item env \<Rightarrow> (string \<Rightarrow> inventory_item) \<Rightarrow> string list \<Rightarrow> state \<Rightarrow> state" where
  "register_anchors env mk [] st = st"
| "register_anchors env mk (anchor # anchors) st =
     register_anchors env mk anchors
       (if \<not> contains (inventory st) anchor then register env (mk anchor) st else st)"

text \<open>
  Lines 139 to 164: the body of the loop over the headings. \<^verbatim>\<open>heading.attrib["id"]\<close>
  raises \<^verbatim>\<open>KeyError\<close> on a heading without an id; the identifier collected again with
  the fallback configuration is the heading's id (line 153); a \<^verbatim>\<open>CollectionError\<close> of
  that collection is caught and the loop goes on with the next heading.
\<close>

definition register_heading ::
  "'item env \<Rightarrow> 'item handler \<Rightarrow> string \<Rightarrow> element \<Rightarrow> state \<Rightarrow> (exn \<times> state) + state" where
  "register_heading env handler page heading st =
     (case map_of (attrib heading) ''id'' of
        None \<Rightarrow> Inl (KeyError ''id'', st)
      | Some rendered_anchor \<Rightarrow>
     (let st1 = st\<lparr>autorefs_anchors := autorefs_anchors st @ [(page, rendered_anchor)]\<rparr>
      in case map_of (attrib heading) ''data-role'' of
           None \<Rightarrow> Inr st1
         | Some role \<Rightarrow>
       (let uri = page @ ''#'' @ rendered_anchor;
            st2 = register env
                    \<lparr>item_name = rendered_anchor, item_domain = domain handler,
                       item_role = role, item_priority = 1, item_uri = uri\<rparr> st1
        in case collect handler rendered_anchor (Dict (fallback_config handler)) of
             Inl msg \<Rightarrow> Inr st2
           | Inr data_object \<Rightarrow>
               Inr (register_anchors env
                      (\<lambda>anchor. \<lparr>item_name = anchor, item_domain = domain handler,
                                 item_role = role, item_priority = 2, item_uri = uri\<rparr>)
                      (get_anchors handler data_object) st2))))"

text \<open>Lines 138 to 164: the loop over the headings.\<close>

fun register_headings ::
  "'item env \<Rightarrow> 'item handler \<Rightarrow> string \<Rightarrow> element list \<Rightarrow> state
     \<Rightarrow> (exn \<times> state) + state" where
  "register_headings env handler page [] st = Inr st"
| "register_headings env handler page (heading # headings) st =
     (case register_heading env handler page heading st of
        Inl failure \<Rightarrow> Inl failure
      | Inr st' \<Rightarrow> register_headings env handler page headings st')"

definition append_child :: "element \<Rightarrow> element \<Rightarrow> element" where
  "append_child p el = Element (tag p) (attrib p) (el_text p) (tail p) (children p @ [el])"

text \<open>
  Lines 129 to 166: the container with the stashed HTML as its text and the duplicated
  headings as its children, the registration of the headings when there is a current page,
  and the insertion of the container, which an exception of the registration prevents.
\<close>

definition insert_rendered ::
  "'item env \<Rightarrow> element \<Rightarrow> string \<Rightarrow> 'item handler \<Rightarrow> 'item \<Rightarrow> state
     \<Rightarrow> (exn \<times> state) + (element \<times> state)" where
  "insert_rendered env parent html handler data st =
     (let st1 = st\<lparr>html_stash := html_stash st @ [html]\<rparr>;
          headings = get_headings handler data;
          el = Element ''div'' [(''class'', ''mkdocstrings'')]
                 (Some (get_placeholder env (length (html_stash st)))) None headings
      in case (case current_page env of
                 None \<Rightarrow> Inr st1
               | Some page \<Rightarrow> register_headings env handler page headings st1) of
           Inl failure \<Rightarrow> Inl failure
         | Inr st2 \<Rightarrow> Inr (append_child parent el, st2))"

text \<open>
  \<^verbatim>\<open>AutoDocProcessor.run(parent, blocks)\<close>: the new parent, the new list of pending blocks
  and the new state; or the exception that ends the build, with the parent, the pending
  blocks and the state as they are when it is raised.
\<close>

definition run ::
  "'item env \<Rightarrow> element \<Rightarrow> string list \<Rightarrow> state
     \<Rightarrow> (exn \<times> element \<times> string list \<times> state) + (element \<times> string list \<times> state)" where
  "run env parent blocks st =
     (case blocks of
        [] \<Rightarrow> Inl (IndexError, parent, blocks, st)
      | block0 # blocks1 \<Rightarrow>
     (let s = match_block block0 blocks1;
          parent1 = (case prefix_block s of
                       Some leading \<Rightarrow> parseBlocks env parent [leading]
                     | None \<Rightarrow> parent)
      in case matched s of
           None \<Rightarrow> Inr (parent1, requeue (remainder s) (pending_blocks s), st)
         | Some mt \<Rightarrow>
       (case process_block env (m_name mt) (yaml_block s)
               (int (count_list (m_heading mt) CHR ''#'')) st of
          Inl (e, st1) \<Rightarrow> Inl (e, parent1, pending_blocks s, st1)
        | Inr (html, handler, data, st1) \<Rightarrow>
        (case insert_rendered env parent1 html handler data st1 of
           Inl (e, st2) \<Rightarrow> Inl (e, parent1, pending_blocks s, st2)
         | Inr (parent2, st2) \<Rightarrow>
             Inr (parent2, requeue (remainder s) (pending_blocks s), st2)))))"

subsection \<open>Vocabulary for the properties of the registrar\<close>

text \<open>
  The entry for a heading's own id on a page (priority 1), and the entry for another
  anchor name of the same object (priority 2), which points at the same \<open>page#id\<close>.
\<close>

definition primary_item :: "'item handler \<Rightarrow> string \<Rightarrow> string \<Rightarrow> string \<Rightarrow> inventory_item" where
  "primary_item handler page rendered_anchor role =
     \<lparr>item_name = rendered_anchor, item_domain = domain handler, item_role = role,
      item_priority = 1, item_uri = page @ ''#'' @ rendered_anchor\<rparr>"

definition fallback_item ::
  "'item handler \<Rightarrow> string \<Rightarrow> string \<Rightarrow> string \<Rightarrow> string \<Rightarrow> inventory_item" where
  "fallback_item handler page rendered_anchor role anchor =
     \<lparr>item_name = anchor, item_domain = domain handler, item_role = role,
      item_priority = 2, item_uri = page @ ''#'' @ rendered_anchor\<rparr>"

text \<open>
  The registrations one heading asks for on a page, in the order of the code: for a heading
  with an id and a role, the unguarded registration of the id, then, when the fallback
  collection of the id succeeds, one guarded registration for every name of
  \<^verbatim>\<open>get_anchors\<close>. The flag says whether the registration is guarded by
  \<^verbatim>\<open>anchor not in inventory\<close>.
\<close>

definition heading_registrations ::
  "'item handler \<Rightarrow> string \<Rightarrow> element \<Rightarrow> (bool \<times> inventory_item) list" where
  "heading_registrations handler page heading =
     (case (map_of (attrib heading) ''id'', map_of (attrib heading) ''data-role'') of
        (Some rendered_anchor, Some role) \<Rightarrow>
          (False, primary_item handler page rendered_anchor role)
          # (case collect handler rendered_anchor (Dict (fallback_config handler)) of
               Inl msg \<Rightarrow> []
             | Inr data_object \<Rightarrow>
                 map (\<lambda>anchor. (True, fallback_item handler page rendered_anchor role anchor))
                     (get_anchors handler data_object))
      | other \<Rightarrow> [])"

text \<open>
  The registrations asked for before the iteration reaches a name of \<^verbatim>\<open>get_anchors\<close>: those of
  the headings \<open>hs\<close> before its heading, the heading's own, and those for the names
  \<open>anchors\<close> before it.
\<close>

definition registrations_before ::
  "'item handler \<Rightarrow> string \<Rightarrow> element list \<Rightarrow> string \<Rightarrow> string \<Rightarrow> string list
     \<Rightarrow> (bool \<times> inventory_item) list" where
  "registrations_before handler page hs rendered_anchor role anchors =
     concat (map (heading_registrations handler page) hs)
     @ (False, primary_item handler page rendered_anchor role)
     # map (\<lambda>anchor. (True, fallback_item handler page rendered_anchor role anchor)) anchors"

text \<open>
  The calls of \<^verbatim>\<open>register\<close> that a list of registrations leads to when the names in
  \<open>present\<close> are in the inventory: a guarded registration of a name that is present is
  skipped; every call makes its name present.
\<close>

fun guarded_calls :: "(bool \<times> inventory_item) list \<Rightarrow> string set \<Rightarrow> inventory_item list" where
  "guarded_calls [] present = []"
| "guarded_calls ((guarded, item) # rs) present =
     (if guarded \<and> item_name item \<in> present then guarded_calls rs present
      else item # guarded_calls rs (insert (item_name item) present))"

section \<open>A sample environment\<close>

text \<open>
  The results of \<^verbatim>\<open>yaml.safe_load\<close> on the configuration texts of the examples below: the
  empty text and a comment load as null, mappings load as mappings, and the unclosed flow
  sequence \<^verbatim>\<open>a: [\<close> is rejected with a \<^verbatim>\<open>YAMLError\<close>. Texts outside the examples are
  answered with an error too; no example reaches them.
\<close>

definition sample_safe_load :: "string \<Rightarrow> exn + yaml" where
  "sample_safe_load t =
     (if t = [] then Inr YNull
      else if t = ''# no options'' then Inr YNull
      else if t = ''\<newline>opt: 1'' then Inr (YMap [(''opt'', YInt 1)])
      else if t = ''handler: demo'' then Inr (YMap [(''handler'', YStr ''demo'')])
      else Inl (YAMLError t))"

text \<open>
  A backend whose items are the identifiers themselves: it finds everything but
  \<open>missing\<close>, renders a heading, and knows two more names per object.
\<close>

definition sample_handler :: "string handler" where
  "sample_handler =
     \<lparr>collect = (\<lambda>identifier opts.
         if identifier = ''missing'' then Inl ''missing could not be found''
         else Inr identifier),
      render = (\<lambda>data opts. Inr (''<h2>'' @ data @ ''</h2>'')),
      get_headings = (\<lambda>data.
         [Element ''h2'' [(''id'', data), (''data-role'', ''class'')] (Some data) None []]),
      get_anchors = (\<lambda>data. [data, ''alias.'' @ data, ''old.'' @ data]),
      domain = ''py'',
      fallback_config = YMap []\<rparr>"

text \<open>
  A handlers container in the manner of \<^verbatim>\<open>if "handler" in config: return config["handler"]\<close>
  with the default \<open>python\<close>: the test is for a key of a mapping, an element of a sequence
  or a part of a string, and raises \<^verbatim>\<open>TypeError\<close> on the other scalars; the subscript
  raises \<^verbatim>\<open>TypeError\<close> on a sequence or a string. A handler name is a string here.
\<close>

fun is_substring :: "string \<Rightarrow> string \<Rightarrow> bool" where
  "is_substring p [] = (p = [])"
| "is_substring p (c # cs) = (startswith (c # cs) p \<or> is_substring p cs)"

fun sample_get_handler_name :: "yaml \<Rightarrow> exn + string" where
  "sample_get_handler_name (YMap kvs) =
     (case map_of kvs ''handler'' of
        None \<Rightarrow> Inr ''python''
      | Some (YStr h) \<Rightarrow> Inr h
      | Some other \<Rightarrow> Inl TypeError)"
| "sample_get_handler_name (YStr s) =
     (if is_substring ''handler'' s then Inl TypeError else Inr ''python'')"
| "sample_get_handler_name (YSeq xs) =
     (if YStr ''handler'' \<in> set xs then Inl TypeError else Inr ''python'')"
| "sample_get_handler_name other = Inl TypeError"

text \<open>
  Modelled from the spec: the inventory's \<open>register\<close>, under which a name already present
  is never overwritten by a later registration (\<^verbatim>\<open>mkdocstrings.inventory\<close> is not among
  the sources).
\<close>

definition register_first_wins :: "inventory_item \<Rightarrow> inventory \<Rightarrow> inventory" where
  "register_first_wins item items =
     (if contains items (item_name item) then items else items @ [(item_name item, item)])"

text \<open>The decimal digits of a number, for \<^verbatim>\<open>"\x02wzxhzdk:%d\x03" % n\<close>.\<close>

fun decimal :: "nat \<Rightarrow> string" where
  "decimal n =
     (if n < 10 then [''0123456789'' ! n]
      else decimal (n div 10) @ [''0123456789'' ! (n mod 10)])"

declare decimal.simps [simp del]

text \<open>
  One global option for every handler name; one backend; a current page; a generic parser
  that wraps the blocks it is given in a paragraph; the placeholders of Python-Markdown's
  HTML stash.
\<close>

definition sample_env :: "string env" where
  "sample_env =
     \<lparr>safe_load = sample_safe_load,
      get_handler_name = sample_get_handler_name,
      get_handler_config = (\<lambda>handler_name.
         Inr (YMap [(''options'', YMap [(''show_source'', YBool True)])])),
      get_handler = (\<lambda>handler_name handler_config. Inr sample_handler),
      inventory_register = register_first_wins,
      current_page = Some ''api/'',
      parseBlocks = (\<lambda>parent blocks.
         append_child parent (Element ''p'' [] (Some (concat blocks)) None [])),
      get_placeholder = (\<lambda>n. CHR 0x02 # ''wzxhzdk:'' @ decimal n @ [CHR 0x03])\<rparr>"

section \<open>Properties of the heading post-processor\<close>

lemma rdh_sel [simp]:
  "tag (remove_duplicated_headings el) = tag el"
  "attrib (remove_duplicated_headings el) = attrib el"
  "tail (remove_duplicated_headings el) = tail el"
  by (cases el; simp split: prod.split)+

lemma rdh_is_dup [simp]:
  "is_duplicate_container (remove_duplicated_headings el) = is_duplicate_container el"
  by (simp add: is_duplicate_container_def)

lemma rdh_set_tail:
  "remove_duplicated_headings (Element tg atts tx t chs)
     = set_tail (remove_duplicated_headings (Element tg atts tx tal chs)) t"
  by (simp add: set_tail_def split: prod.split)

lemma set_tail_same: "tail el = t \<Longrightarrow> set_tail el t = el"
  by (cases el) (simp add: set_tail_def)

declare remove_duplicated_headings.simps [simp del]

lemma set_tail_rdh_same:
  "set_tail (remove_duplicated_headings (Element tg atts tx tal chs)) tal
     = remove_duplicated_headings (Element tg atts tx tal chs)"
  by (rule set_tail_same) simp

lemma set_tail_sel [simp]:
  "tag (set_tail el t) = tag el" "attrib (set_tail el t) = attrib el"
  "tail (set_tail el t) = t" "children (set_tail el t) = children el"
  "el_text (set_tail el t) = el_text el"
  by (simp_all add: set_tail_def)

text \<open>The loop, read backwards by the code, computes the forward description.\<close>

lemma rdh_loop_spec: "rdh_loop els = (dedup_children els, carried_text els)"
proof (induction els)
  case Nil
  show ?case by simp
next
  case (Cons el els)
  obtain tg atts tx tal chs where el: "el = Element tg atts tx tal chs" by (cases el)
  show ?case
  proof (cases "is_duplicate_container el")
    case True
    with Cons el show ?thesis by (simp add: is_duplicate_container_def)
  next
    case False
    show ?thesis
    proof (cases "carried_text els = []")
      case True
      with False Cons el show ?thesis
        by (simp add: is_duplicate_container_def append_carry_def set_tail_rdh_same)
    next
      case nonempty: False
      have "remove_duplicated_headings (Element tg atts tx (Some (or_empty tal @ carried_text els)) chs)
          = set_tail (remove_duplicated_headings el) (Some (or_empty tal @ carried_text els))"
        unfolding el by (rule rdh_set_tail)
      with False nonempty Cons el show ?thesis
        by (simp add: is_duplicate_container_def append_carry_def)
    qed
  qed
qed

lemma rdh_children: "children (remove_duplicated_headings el) = dedup_children (children el)"
  by (cases el) (simp add: rdh_loop_spec remove_duplicated_headings.simps)

lemma rdh_text:
  "el_text (remove_duplicated_headings el)
     = append_carry (el_text el) (carried_text (children el))"
  by (cases el) (simp add: rdh_loop_spec append_carry_def remove_duplicated_headings.simps)

lemma no_duplicates_children: "no_duplicates el = no_duplicates_list (children el)"
  by (cases el) simp

lemma kept_text_children: "kept_text el = or_empty (el_text el) @ kept_children (children el)"
  by (cases el) simp

lemma set_tail_is_dup [simp]:
  "is_duplicate_container (set_tail el t) = is_duplicate_container el"
  by (simp add: is_duplicate_container_def)

lemma set_tail_no_duplicates [simp]: "no_duplicates (set_tail el t) = no_duplicates el"
  by (simp add: no_duplicates_children)

lemma set_tail_kept_text [simp]: "kept_text (set_tail el t) = kept_text el"
  by (simp add: kept_text_children)

lemma rdh_no_duplicates:
  "no_duplicates (remove_duplicated_headings el)"
  "no_duplicates_list (dedup_children els)"
proof (induction el and els rule: no_duplicates_no_duplicates_list.induct)
  case (1 tg atts tx tal chs)
  then show ?case by (simp add: no_duplicates_children rdh_children)
next
  case 2
  show ?case by simp
next
  case (3 el els)
  then show ?case by simp
qed

lemma or_empty_append_carry: "or_empty (append_carry t c) = or_empty t @ c"
  by (simp add: append_carry_def or_empty_def)

lemma rdh_kept_text:
  "kept_text (remove_duplicated_headings el) = kept_text el"
  "carried_text els @ kept_children (dedup_children els) = kept_children els"
proof (induction el and els rule: kept_text_kept_children.induct)
  case (1 tg atts tx tal chs)
  have "kept_text (remove_duplicated_headings (Element tg atts tx tal chs))
      = or_empty tx @ carried_text chs @ kept_children (dedup_children chs)"
    by (simp add: kept_text_children[of "remove_duplicated_headings _"] rdh_children rdh_text
        or_empty_append_carry)
  with 1 show ?case by simp
next
  case 2
  show ?case by simp
next
  case (3 el els)
  show ?case
  proof (cases "is_duplicate_container el")
    case True
    with 3 show ?thesis by simp
  next
    case False
    with 3 show ?thesis by (simp add: or_empty_append_carry)
  qed
qed

lemma no_duplicates_inner_text:
  "no_duplicates el \<Longrightarrow> kept_text el = inner_text el"
  "no_duplicates_list els \<Longrightarrow> kept_children els = inner_children els"
  by (induction el and els rule: inner_text_inner_children.induct) simp_all

lemma dedup_children_order:
  "map (\<lambda>c. (tag c, attrib c)) (dedup_children els)
     = map (\<lambda>c. (tag c, attrib c)) (filter (\<lambda>c. \<not> is_duplicate_container c) els)"
  by (induction els) simp_all

lemma no_duplicates_fixed:
  "no_duplicates el \<Longrightarrow> remove_duplicated_headings el = el"
  "no_duplicates_list els \<Longrightarrow> rdh_loop els = (els, [])"
proof (induction el and els rule: remove_duplicated_headings_rdh_loop.induct)
  case (1 tg atts tx tal chs)
  then show ?case by (simp add: remove_duplicated_headings.simps)
next
  case 2
  show ?case by simp
next
  case (3 tg atts tx tal chs els)
  then show ?case by (simp add: is_duplicate_container_def)
qed

text \<open>
  Claim C3, as stated: one run removes every duplicate-heading container from its parent,
  carries each removed container's \<^emph>\<open>trailing\<close> text to the tail of the nearest remaining
  sibling before it (or to the parent's leading text), and loses no text. The code carries
  the container's leading text (\<^verbatim>\<open>el.text\<close>, the stashed HTML) instead. A body whose only
  child is a container with text \<open>H\<close> and tail \<open>T\<close> ends with the text \<open>H\<close>; the
  trailing text \<open>T\<close> is found nowhere in the result.
\<close>

theorem remove_duplicated_headings_trailing_text_counterexample:
  "remove_duplicated_headings
     (Element ''body'' [] None None
        [Element ''div'' [(''class'', ''mkdocstrings'')] (Some ''H'') (Some ''T'') []])
     = Element ''body'' [] (Some ''H'') None []
   \<and> inner_text (remove_duplicated_headings
        (Element ''body'' [] None None
           [Element ''div'' [(''class'', ''mkdocstrings'')] (Some ''H'') (Some ''T'') []]))
     \<noteq> ''T''"
  by (simp add: remove_duplicated_headings.simps or_empty_def)

text \<open>
  Claim C3, amended: one run of the pass leaves no duplicate-heading container below the
  node it is run on; the node keeps its tag, attributes and tail; the leading texts of the
  removed containers are carried, in document order, to the end of the tail of the nearest
  remaining sibling before them, or to the end of the parent's leading text when there is
  none; the remaining children are the processed images of the non-container children in
  their original order; and the text content of the result is the text content of the
  input with every container replaced by its leading text.
\<close>

theorem remove_duplicated_headings_correct:
  "no_duplicates (remove_duplicated_headings parent)
   \<and> tag (remove_duplicated_headings parent) = tag parent
   \<and> attrib (remove_duplicated_headings parent) = attrib parent
   \<and> tail (remove_duplicated_headings parent) = tail parent
   \<and> el_text (remove_duplicated_headings parent)
       = append_carry (el_text parent) (carried_text (children parent))
   \<and> children (remove_duplicated_headings parent) = dedup_children (children parent)
   \<and> map (\<lambda>c. (tag c, attrib c)) (children (remove_duplicated_headings parent))
       = map (\<lambda>c. (tag c, attrib c))
           (filter (\<lambda>c. \<not> is_duplicate_container c) (children parent))
   \<and> inner_text (remove_duplicated_headings parent) = kept_text parent"
  using rdh_no_duplicates(1)[of parent] rdh_kept_text(1)[of parent]
    no_duplicates_inner_text(1)[of "remove_duplicated_headings parent"]
  by (simp add: rdh_text rdh_children dedup_children_order)

theorem remove_duplicated_headings_correct_witness:
  "remove_duplicated_headings
     (Element ''body'' [] None None
        [Element ''p'' [] (Some ''a'') None [],
         Element ''div'' [(''class'', ''mkdocstrings'')] (Some ''H1'') None
           [Element ''h1'' [(''id'', ''x'')] (Some ''X'') None []],
         Element ''div'' [(''class'', ''mkdocstrings'')] (Some ''H2'') None [],
         Element ''p'' [] (Some ''b'') (Some ''c'') []])
     = Element ''body'' [] None None
        [Element ''p'' [] (Some ''a'') (Some ''H1H2'') [],
         Element ''p'' [] (Some ''b'') (Some ''c'') []]
   \<and> inner_text (remove_duplicated_headings
        (Element ''body'' [] None None
           [Element ''p'' [] (Some ''a'') None [],
            Element ''div'' [(''class'', ''mkdocstrings'')] (Some ''H1'') None
              [Element ''h1'' [(''id'', ''x'')] (Some ''X'') None []],
            Element ''div'' [(''class'', ''mkdocstrings'')] (Some ''H2'') None [],
            Element ''p'' [] (Some ''b'') (Some ''c'') []])) = ''aH1H2bc''"
proof -
  let ?body = "Element ''body'' [] None None
        [Element ''p'' [] (Some ''a'') None [],
         Element ''div'' [(''class'', ''mkdocstrings'')] (Some ''H1'') None
           [Element ''h1'' [(''id'', ''x'')] (Some ''X'') None []],
         Element ''div'' [(''class'', ''mkdocstrings'')] (Some ''H2'') None [],
         Element ''p'' [] (Some ''b'') (Some ''c'') []]"
  have result: "remove_duplicated_headings ?body
      = Element ''body'' [] None None
         [Element ''p'' [] (Some ''a'') (Some ''H1H2'') [],
          Element ''p'' [] (Some ''b'') (Some ''c'') []]"
    by (simp add: remove_duplicated_headings.simps or_empty_def)
  have "inner_text (remove_duplicated_headings ?body) = kept_text ?body"
    using remove_duplicated_headings_correct [of ?body] by (elim conjE)
  also have "kept_text ?body = ''aH1H2bc''"
    by (simp add: is_duplicate_container_def or_empty_def)
  finally have content: "inner_text (remove_duplicated_headings ?body) = ''aH1H2bc''" .
  from result content show ?thesis by (rule conjI)
qed

text \<open>
  Claim C7: the pass is idempotent. A tree with no duplicate-heading container below its
  root is left exactly as it is; the result of a run is such a tree; so a second run
  changes nothing.
\<close>

theorem remove_duplicated_headings_idempotent:
  "(no_duplicates t \<longrightarrow> remove_duplicated_headings t = t)
   \<and> no_duplicates (remove_duplicated_headings t)
   \<and> remove_duplicated_headings (remove_duplicated_headings t) = remove_duplicated_headings t"
  using rdh_no_duplicates(1)[of t] no_duplicates_fixed(1) by simp

theorem remove_duplicated_headings_idempotent_witness:
  "no_duplicates
     (Element ''body'' [] (Some ''t'') None
        [Element ''p'' [] (Some ''a'') (Some ''H1'') [Element ''em'' [] None None []],
         Element ''div'' [(''class'', ''other'')] (Some ''b'') (Some ''c'') []])
   \<and> remove_duplicated_headings
     (Element ''body'' [] (Some ''t'') None
        [Element ''p'' [] (Some ''a'') (Some ''H1'') [Element ''em'' [] None None []],
         Element ''div'' [(''class'', ''other'')] (Some ''b'') (Some ''c'') []])
     = Element ''body'' [] (Some ''t'') None
        [Element ''p'' [] (Some ''a'') (Some ''H1'') [Element ''em'' [] None None []],
         Element ''div'' [(''class'', ''other'')] (Some ''b'') (Some ''c'') []]"
proof -
  let ?body = "Element ''body'' [] (Some ''t'') None
        [Element ''p'' [] (Some ''a'') (Some ''H1'') [Element ''em'' [] None None []],
         Element ''div'' [(''class'', ''other'')] (Some ''b'') (Some ''c'') []]"
  have clean: "no_duplicates ?body"
    by (simp add: is_duplicate_container_def)
  have "no_duplicates ?body \<longrightarrow> remove_duplicated_headings ?body = ?body"
    using remove_duplicated_headings_idempotent [of ?body] by (elim conjE)
  with clean have "remove_duplicated_headings ?body = ?body" by (rule rev_mp)
  with clean show ?thesis by (rule conjI)
qed

section \<open>Properties of the label override\<close>

lemma flatten_override:
  "flatten (override_toc_labels tokens)
     = map (\<lambda>(lv, i, n, l). (lv, i, if l = None \<or> l = Some [] \<or> l = Some n then n else the l, l))
         (flatten tokens)"
  by (induction tokens rule: override_toc_labels.induct) (auto split: option.splits)

lemma erase_names_override: "erase_names (override_toc_labels tokens) = erase_names tokens"
  by (induction tokens rule: override_toc_labels.induct) simp_all

text \<open>
  Claim C8, as stated: every token that carries a custom label different from its name has
  its name overwritten with that label. A token with name \<open>Foo\<close> and the custom label
  \<open>''''\<close> (present, empty, different from the name) keeps its name.
\<close>

theorem override_toc_labels_empty_label_counterexample:
  "data_toc_label (TocToken 1 ''foo'' ''Foo'' (Some '''') []) = Some ''''
   \<and> toc_name (TocToken 1 ''foo'' ''Foo'' (Some '''') []) \<noteq> ''''
   \<and> map toc_name (override_toc_labels [TocToken 1 ''foo'' ''Foo'' (Some '''') []]) = [''Foo'']
   \<and> map toc_name (override_toc_labels [TocToken 1 ''foo'' ''Foo'' (Some '''') []]) \<noteq> ['''']"
  by simp

text \<open>
  Claim C8, amended: the override reaches every token of the forest, at any depth and
  whatever happened to its parent; a token that carries a non-empty custom label different
  from its name gets that label as its name; every other token (no label, an empty label,
  a label equal to the name) keeps its name; labels, levels, ids and the shape of the
  forest are unchanged, so no token is added or removed.
\<close>

theorem override_toc_labels_correct:
  "flatten (override_toc_labels tokens)
     = map (\<lambda>(lv, i, n, l). (lv, i, if l = None \<or> l = Some [] \<or> l = Some n then n else the l, l))
         (flatten tokens)
   \<and> erase_names (override_toc_labels tokens) = erase_names tokens"
  by (simp add: flatten_override erase_names_override)

theorem override_toc_labels_correct_witness:
  "flatten (override_toc_labels
      [TocToken 1 ''foo'' ''Foo'' (Some ''Bar'') [TocToken 2 ''baz'' ''Baz'' None []]])
     = [(1, ''foo'', ''Bar'', Some ''Bar''), (2, ''baz'', ''Baz'', None)]"
  using override_toc_labels_correct
    [of "[TocToken 1 ''foo'' ''Foo'' (Some ''Bar'') [TocToken 2 ''baz'' ''Baz'' None []]]"]
  by simp

text \<open>
  Claim C10: a token whose custom label is present but empty is never relabelled, nor is a
  token whose label equals its name; a name changes only where the label is a non-empty
  string different from the name, and then it becomes that label. This holds for every
  token of the forest, position by position.
\<close>

theorem override_toc_labels_only_nonempty:
  "list_all2
     (\<lambda>(lv, i, n, l) (lv', i', n', l').
        (l = Some [] \<longrightarrow> n' = n) \<and> (l = Some n \<longrightarrow> n' = n)
        \<and> (n' \<noteq> n \<longrightarrow> (\<exists>label. l = Some label \<and> label \<noteq> [] \<and> label \<noteq> n \<and> n' = label)))
     (flatten tokens) (flatten (override_toc_labels tokens))"
  unfolding flatten_override list_all2_map2
  by (rule list_all2_refl) (auto split: prod.splits)

theorem override_toc_labels_only_nonempty_witness:
  "map (\<lambda>(lv, i, n, l). n)
     (flatten (override_toc_labels
        [TocToken 1 ''a'' ''Foo'' (Some '''')
           [TocToken 2 ''b'' ''Baz'' (Some ''Baz'') [], TocToken 2 ''c'' ''Qux'' (Some ''Bar'') []]]))
     = [''Foo'', ''Baz'', ''Bar'']"
  using override_toc_labels_only_nonempty
    [of "[TocToken 1 ''a'' ''Foo'' (Some '''')
           [TocToken 2 ''b'' ''Baz'' (Some ''Baz'') [], TocToken 2 ''c'' ''Qux'' (Some ''Bar'') []]]"]
  by simp

section \<open>Properties of the option layering\<close>

text \<open>
  Claim C1, as stated: with a heading level above zero, looking up \<open>heading_level\<close> in the
  options yields the instruction's heading level, over any value of the local or global
  layer. The override is the last map of the chain: a local \<open>heading_level\<close> of 3 wins
  over the instruction's 2.
\<close>

theorem build_options_heading_level_counterexample:
  "getitem (build_options (YMap [(''heading_level'', YInt 3)]) (YMap []) 2) ''heading_level''
     = Inr (YInt 3)
   \<and> getitem (build_options (YMap [(''heading_level'', YInt 3)]) (YMap []) 2) ''heading_level''
     \<noteq> Inr (YInt 2)"
  by (simp add: build_options_def)

text \<open>
  Claim C1, amended: with a heading level other than zero, a key is looked up in the local
  options first, then in the global options, and the instruction's heading level is what
  \<open>heading_level\<close> yields when neither of them defines it (like \<^verbatim>\<open>setdefault\<close>); any other
  key that both miss is a \<^verbatim>\<open>KeyError\<close>.
\<close>

theorem build_options_heading_level_default:
  "heading_level \<noteq> 0 \<Longrightarrow>
   getitem (build_options (YMap l) (YMap g) heading_level) key =
     (case map_of l key of
        Some v \<Rightarrow> Inr v
      | None \<Rightarrow>
         (case map_of g key of
            Some v \<Rightarrow> Inr v
          | None \<Rightarrow> if key = ''heading_level'' then Inr (YInt heading_level)
                    else Inl (KeyError key)))"
  by (simp add: build_options_def split: option.splits)

theorem build_options_heading_level_default_witness:
  "getitem (build_options (YMap [(''x'', YInt 1)]) (YMap [(''x'', YInt 2), (''y'', YInt 3)]) 2)
      ''heading_level'' = Inr (YInt 2)"
  using build_options_heading_level_default
    [of 2 "[(''x'', YInt 1)]" "[(''x'', YInt 2), (''y'', YInt 3)]" "''heading_level''"]
  by simp

section \<open>Properties of the block resolver\<close>

lemma sample_handler_simps:
  "collect sample_handler identifier opts =
     (if identifier = ''missing'' then Inl ''missing could not be found'' else Inr identifier)"
  "render sample_handler data opts = Inr (''<h2>'' @ data @ ''</h2>'')"
  "get_headings sample_handler data =
     [Element ''h2'' [(''id'', data), (''data-role'', ''class'')] (Some data) None []]"
  "get_anchors sample_handler data = [data, ''alias.'' @ data, ''old.'' @ data]"
  "domain sample_handler = ''py''"
  "fallback_config sample_handler = YMap []"
  by (simp_all add: sample_handler_def)

lemma sample_env_simps:
  "safe_load sample_env = sample_safe_load"
  "get_handler_name sample_env = sample_get_handler_name"
  "get_handler_config sample_env handler_name =
     Inr (YMap [(''options'', YMap [(''show_source'', YBool True)])])"
  "get_handler sample_env handler_name handler_config = Inr sample_handler"
  "inventory_register sample_env = register_first_wins"
  "current_page sample_env = Some ''api/''"
  "parseBlocks sample_env parent blocks =
     append_child parent (Element ''p'' [] (Some (concat blocks)) None [])"
  "get_placeholder sample_env n = CHR 0x02 # ''wzxhzdk:'' @ decimal n @ [CHR 0x03]"
  by (simp_all add: sample_env_def)

text \<open>
  Claim C2, as stated: parsing the configuration text never fails, and malformed text
  yields an empty configuration. Line 194 has no handler around \<^verbatim>\<open>yaml.safe_load\<close>: on
  the malformed text \<^verbatim>\<open>a: [\<close> the parser's error leaves \<^verbatim>\<open>_process_block\<close> as raised, and
  no empty configuration is produced.
\<close>

theorem load_config_malformed_counterexample:
  "process_block sample_env ''a.b'' ''a: ['' 0 (init []) = Inl (YAMLError ''a: ['', init [])
   \<and> load_config sample_env ''a: ['' \<noteq> Inr (YMap [])"
  by (simp add: process_block_def load_config_def sample_env_simps sample_safe_load_def)

text \<open>
  Claim C2, amended: when the parser accepts the configuration text, the configuration is
  what it returns, or the empty mapping when that is falsy (as for empty text), and
  processing goes on with it; when the parser rejects the text, its error is not caught:
  it is the outcome of \<^verbatim>\<open>_process_block\<close>, and the processor's state is as it was.
\<close>

theorem load_config_propagates_parse_errors:
  "(\<forall>e. safe_load env t = Inl e \<longrightarrow>
        load_config env t = Inl e
        \<and> process_block env identifier t heading_level st = Inl (e, st))
   \<and> (\<forall>v. safe_load env t = Inr v \<longrightarrow>
        load_config env t = Inr (if truthy v then v else YMap [])
        \<and> process_block env identifier t heading_level st
            = resolve_block env identifier (if truthy v then v else YMap []) heading_level st)"
  by (simp add: load_config_def process_block_def py_or_def)

theorem load_config_propagates_parse_errors_witness:
  "load_config sample_env ''a: ['' = Inl (YAMLError ''a: ['')
   \<and> process_block sample_env ''a.b'' ''a: ['' 0 (init []) = Inl (YAMLError ''a: ['', init [])
   \<and> load_config sample_env [] = Inr (YMap [])"
  using load_config_propagates_parse_errors [of sample_env "''a: [''" "''a.b''" 0 "init []"]
    load_config_propagates_parse_errors [of sample_env "[]" "''a.b''" 0 "init []"]
  by (simp add: sample_env_simps sample_safe_load_def)

text \<open>
  Claim C9: a configuration text whose parse result is falsy is replaced by the empty
  mapping before the handler is resolved: the handler name is resolved on the empty
  mapping, the lookup of its \<open>options\<close> is a lookup in a mapping (and gives the empty
  default), and the rest of \<^verbatim>\<open>_process_block\<close> runs on the empty mapping.
\<close>

theorem falsy_config_is_empty_mapping:
  "safe_load env t = Inr v \<Longrightarrow> \<not> truthy v \<Longrightarrow>
     load_config env t = Inr (YMap [])
     \<and> handler_name_of env t
         = (case get_handler_name env (YMap []) of Inl e \<Rightarrow> [] | Inr n \<Rightarrow> [n])
     \<and> dict_get (YMap []) ''options'' (YMap []) = Inr (YMap [])
     \<and> process_block env identifier t heading_level st
         = resolve_block env identifier (YMap []) heading_level st"
  by (simp add: load_config_def process_block_def py_or_def handler_name_of_def)

theorem falsy_config_is_empty_mapping_witness:
  "safe_load sample_env ''# no options'' = Inr YNull \<and> \<not> truthy YNull
   \<and> load_config sample_env ''# no options'' = Inr (YMap [])
   \<and> handler_name_of sample_env ''# no options'' = [''python'']"
proof -
  have loaded: "safe_load sample_env ''# no options'' = Inr YNull"
    by (simp add: sample_env_simps sample_safe_load_def)
  have falsy: "\<not> truthy YNull" by simp
  have default_name: "get_handler_name sample_env (YMap []) = Inr ''python''"
    by (simp add: sample_env_simps)
  from falsy_config_is_empty_mapping [OF loaded falsy, of "''a.b''" 0 "init []"]
    loaded falsy default_name
  show ?thesis by simp
qed

subsection \<open>The environment update\<close>

lemma resolve_block_state:
  "resolve_block env identifier config heading_level st = Inr (rendered, handler, data, st')
   \<Longrightarrow> \<exists>n. get_handler_name env config = Inr n \<and> st' = update_env n st"
  by (auto simp: resolve_block_def Let_def split: sum.splits)

lemma process_block_state:
  "process_block env identifier t heading_level st = Inr (rendered, handler, data, st')
   \<Longrightarrow> \<exists>n. handler_name_of env t = [n] \<and> st' = update_env n st"
  by (auto simp: process_block_def handler_name_of_def split: sum.splits
      dest: resolve_block_state)

lemma remdups_snoc: "remdups (xs @ [n]) = filter (\<lambda>x. x \<noteq> n) (remdups xs) @ [n]"
  by (induction xs) auto

lemma hook_calls_filter:
  "hook_calls ns seen = filter (\<lambda>n. n \<notin> seen) (rev (remdups (rev ns)))"
proof (induction ns arbitrary: seen)
  case Nil
  show ?case by simp
next
  case (Cons n ns)
  have "rev (remdups (rev ns @ [n])) = n # filter (\<lambda>x. x \<noteq> n) (rev (remdups (rev ns)))"
    by (simp add: remdups_snoc rev_filter)
  with Cons show ?case by (auto simp: filter_id_conv intro!: filter_cong)
qed

lemma process_blocks_env_updates:
  "process_blocks env calls st = Inr st' \<Longrightarrow>
     env_updates st' = env_updates st
        @ hook_calls (concat (map (\<lambda>(i, t, h). handler_name_of env t) calls)) (updated_envs st)
   \<and> updated_envs st'
       = updated_envs st \<union> set (concat (map (\<lambda>(i, t, h). handler_name_of env t) calls))"
proof (induction calls arbitrary: st)
  case Nil
  then show ?case by simp
next
  case (Cons c calls)
  obtain i t h where c: "c = (i, t, h)" by (cases c)
  from Cons.prems c obtain rendered handler data st1
    where step: "process_block env i t h st = Inr (rendered, handler, data, st1)"
      and rest: "process_blocks env calls st1 = Inr st'"
    by (auto split: sum.splits)
  from process_block_state[OF step] obtain n
    where n: "handler_name_of env t = [n]" "st1 = update_env n st" by blast
  from Cons.IH[OF rest] n c show ?case
    by (auto simp: update_env_def)
qed

text \<open>
  Claim C6: over a session of successfully processed blocks on a fresh processor, the calls
  of \<^verbatim>\<open>_update_env\<close> are the handler names the blocks resolve to, each once, in the order
  of their first block: the call is made at the first block of a handler name and never
  again for that name.
\<close>

theorem update_env_once_per_handler:
  "updated_envs st = {} \<Longrightarrow> env_updates st = [] \<Longrightarrow>
   process_blocks env calls st = Inr st' \<Longrightarrow>
     env_updates st'
       = rev (remdups (rev (concat (map (\<lambda>(i, t, h). handler_name_of env t) calls))))
     \<and> distinct (env_updates st')
     \<and> updated_envs st' = set (env_updates st')"
  using process_blocks_env_updates[of env calls st st']
  by (simp add: hook_calls_filter)

theorem update_env_once_per_handler_witness:
  "process_blocks sample_env
      [(''a'', ''handler: demo'', 0), (''b'', [], 2), (''c'', ''handler: demo'', 0),
       (''d'', ''# no options'', 1)] (init [])
     = Inr \<lparr>updated_envs = {''python'', ''demo''}, env_updates = [''demo'', ''python''],
            html_stash = [], autorefs_anchors = [], register_calls = [], inventory = []\<rparr>
   \<and> env_updates \<lparr>updated_envs = {''python'', ''demo''}, env_updates = [''demo'', ''python''],
            html_stash = [], autorefs_anchors = [], register_calls = [], inventory = []\<rparr>
     = rev (remdups (rev [''demo'', ''python'', ''demo'', ''python'']))"
proof -
  let ?calls = "[(''a'', ''handler: demo'', 0), (''b'', [], 2), (''c'', ''handler: demo'', 0),
       (''d'', ''# no options'', 1)] :: (string \<times> string \<times> int) list"
  let ?final = "\<lparr>updated_envs = {''python'', ''demo''}, env_updates = [''demo'', ''python''],
            html_stash = [], autorefs_anchors = [], register_calls = [], inventory = []\<rparr>"
  have ran: "process_blocks sample_env ?calls (init []) = Inr ?final"
    by (simp add: process_block_def load_config_def resolve_block_def update_env_def
        build_options_def py_or_def init_def Let_def sample_env_simps sample_safe_load_def
        sample_handler_simps)
  have names: "concat (map (\<lambda>(i, t, h). handler_name_of sample_env t) ?calls)
      = [''demo'', ''python'', ''demo'', ''python'']"
    by (simp add: handler_name_of_def load_config_def py_or_def sample_env_simps
        sample_safe_load_def)
  have "updated_envs (init []) = {}" and "env_updates (init []) = []"
    by (simp_all add: init_def)
  from update_env_once_per_handler [OF this ran]
  have "env_updates ?final
      = rev (remdups (rev (concat (map (\<lambda>(i, t, h). handler_name_of sample_env t) ?calls))))"
    by (elim conjE)
  with names
  have "env_updates ?final = rev (remdups (rev [''demo'', ''python'', ''demo'', ''python'']))"
    by (simp only:)
  with ran show ?thesis by (rule conjI)
qed

section \<open>Properties of the anchor registrar\<close>

lemma contains_names: "contains items n = (n \<in> names items)"
  by (simp add: contains_def names_def map_of_eq_None_iff)

lemma contains_register_first_wins:
  "contains (register_first_wins item items) n = (contains items n \<or> n = item_name item)"
  by (auto simp: register_first_wins_def contains_names names_def)

lemma names_register:
  assumes "\<And>item items n.
     contains (inventory_register env item items) n = (contains items n \<or> n = item_name item)"
  shows "names (inventory (register env item st)) = insert (item_name item) (names (inventory st))"
  using assms by (auto simp: register_def contains_names)

lemma register_calls_register:
  "register_calls (register env item st) = register_calls st @ [item]"
  by (simp add: register_def)

lemma guarded_calls_append:
  "guarded_calls (rs @ rs') present
     = guarded_calls rs present
       @ guarded_calls rs' (present \<union> item_name ` set (guarded_calls rs present))"
proof (induction rs arbitrary: present)
  case Nil
  show ?case by simp
next
  case (Cons r rs)
  obtain guarded item where r: "r = (guarded, item)" by (cases r)
  show ?case
    unfolding r by (simp add: Cons.IH Un_commute insert_commute)
qed

lemma register_anchors_calls:
  assumes law: "\<And>item items n.
     contains (inventory_register env item items) n = (contains items n \<or> n = item_name item)"
    and mk: "\<And>a. item_name (mk a) = a"
  shows "register_calls (register_anchors env mk anchors st)
       = register_calls st
         @ guarded_calls (map (\<lambda>a. (True, mk a)) anchors) (names (inventory st))
     \<and> names (inventory (register_anchors env mk anchors st))
       = names (inventory st)
         \<union> item_name ` set (guarded_calls (map (\<lambda>a. (True, mk a)) anchors) (names (inventory st)))"
proof (induction anchors arbitrary: st)
  case Nil
  show ?case by simp
next
  case (Cons a anchors)
  show ?case
  proof (cases "contains (inventory st) a")
    case True
    then show ?thesis
      using Cons.IH[of st] by (simp add: mk contains_names)
  next
    case False
    then show ?thesis
      using Cons.IH[of "register env (mk a) st"]
      by (simp add: mk contains_names names_register[OF law] register_calls_register)
  qed
qed

lemma register_heading_calls:
  assumes law: "\<And>item items n.
     contains (inventory_register env item items) n = (contains items n \<or> n = item_name item)"
    and has_id: "map_of (attrib heading) ''id'' \<noteq> None"
  shows "\<exists>st'. register_heading env handler page heading st = Inr st'
     \<and> register_calls st'
         = register_calls st
           @ guarded_calls (heading_registrations handler page heading) (names (inventory st))
     \<and> names (inventory st')
         = names (inventory st)
           \<union> item_name ` set (guarded_calls (heading_registrations handler page heading)
                                  (names (inventory st)))"
proof -
  from has_id obtain rendered_anchor
    where rid: "map_of (attrib heading) ''id'' = Some rendered_anchor" by auto
  show ?thesis
  proof (cases "map_of (attrib heading) ''data-role''")
    case None
    with rid show ?thesis
      by (simp add: register_heading_def heading_registrations_def)
  next
    case (Some role)
    let ?st1 = "st\<lparr>autorefs_anchors := autorefs_anchors st @ [(page, rendered_anchor)]\<rparr>"
    let ?p1 = "\<lparr>item_name = rendered_anchor, item_domain = domain handler,
                 item_role = role, item_priority = 1,
                 item_uri = page @ ''#'' @ rendered_anchor\<rparr>"
    let ?mk = "\<lambda>anchor. \<lparr>item_name = anchor, item_domain = domain handler,
                 item_role = role, item_priority = 2,
                 item_uri = page @ ''#'' @ rendered_anchor\<rparr>"
    let ?st2 = "register env ?p1 ?st1"
    have st2: "register_calls ?st2 = register_calls st @ [?p1]"
      "names (inventory ?st2) = insert rendered_anchor (names (inventory st))"
      by (simp_all add: register_calls_register names_register[OF law])
    show ?thesis
    proof (cases "collect handler rendered_anchor (Dict (fallback_config handler))")
      case (Inl msg)
      with rid Some st2 show ?thesis
        by (simp add: register_heading_def heading_registrations_def primary_item_def Let_def)
    next
      case (Inr data_object)
      have mk: "\<And>a. item_name (?mk a) = a" by simp
      note anchors = register_anchors_calls[OF law mk, of "get_anchors handler data_object" ?st2]
      from rid Some Inr st2 anchors show ?thesis
        by (simp add: register_heading_def heading_registrations_def primary_item_def
            fallback_item_def Let_def comp_def Un_commute insert_commute)
    qed
  qed
qed

lemma register_headings_calls:
  assumes law: "\<And>item items n.
     contains (inventory_register env item items) n = (contains items n \<or> n = item_name item)"
    and ids: "\<forall>h \<in> set headings. map_of (attrib h) ''id'' \<noteq> None"
  shows "\<exists>st'. register_headings env handler page headings st = Inr st'
     \<and> register_calls st'
         = register_calls st
           @ guarded_calls (concat (map (heading_registrations handler page) headings))
               (names (inventory st))
     \<and> names (inventory st')
         = names (inventory st)
           \<union> item_name ` set (guarded_calls
                (concat (map (heading_registrations handler page) headings))
                (names (inventory st)))"
  using ids
proof (induction headings arbitrary: st)
  case Nil
  show ?case by simp
next
  case (Cons h headings)
  from Cons.prems have "map_of (attrib h) ''id'' \<noteq> None" by simp
  from register_heading_calls[OF law this, of handler page st] obtain st1
    where first: "register_heading env handler page h st = Inr st1"
      and calls1: "register_calls st1
         = register_calls st
           @ guarded_calls (heading_registrations handler page h) (names (inventory st))"
      and names1: "names (inventory st1)
         = names (inventory st)
           \<union> item_name ` set (guarded_calls (heading_registrations handler page h)
                                  (names (inventory st)))"
    by blast
  from Cons.prems have "\<forall>h \<in> set headings. map_of (attrib h) ''id'' \<noteq> None" by simp
  from Cons.IH[OF this, of st1] obtain st'
    where rest: "register_headings env handler page headings st1 = Inr st'"
      and calls': "register_calls st'
         = register_calls st1
           @ guarded_calls (concat (map (heading_registrations handler page) headings))
               (names (inventory st1))"
      and names': "names (inventory st')
         = names (inventory st1)
           \<union> item_name ` set (guarded_calls
                (concat (map (heading_registrations handler page) headings))
                (names (inventory st1)))"
    by blast
  from first rest have "register_headings env handler page (h # headings) st = Inr st'"
    by simp
  moreover from calls1 calls' names1
  have "register_calls st'
      = register_calls st
        @ guarded_calls (concat (map (heading_registrations handler page) (h # headings)))
            (names (inventory st))"
    by (simp add: guarded_calls_append)
  moreover from names1 names'
  have "names (inventory st')
      = names (inventory st)
        \<union> item_name ` set (guarded_calls
             (concat (map (heading_registrations handler page) (h # headings)))
             (names (inventory st)))"
    by (simp add: guarded_calls_append image_Un Un_assoc)
  ultimately show ?case by blast
qed

lemma guarded_calls_at:
  "guarded_calls (rs @ (True, item) # rs') present
     = guarded_calls rs present
       @ (if item_name item \<in> present \<union> item_name ` set (guarded_calls rs present)
          then [] else [item])
       @ guarded_calls rs'
           (insert (item_name item) (present \<union> item_name ` set (guarded_calls rs present)))"
  by (simp add: guarded_calls_append insert_absorb)

lemma heading_registrations_at:
  assumes "get_headings handler data = hs1 @ h # hs2"
    and "map_of (attrib h) ''id'' = Some rendered_anchor"
    and "map_of (attrib h) ''data-role'' = Some role"
    and "collect handler rendered_anchor (Dict (fallback_config handler)) = Inr data_object"
    and "get_anchors handler data_object = as1 @ a # as2"
  shows "concat (map (heading_registrations handler page) (get_headings handler data))
     = registrations_before handler page hs1 rendered_anchor role as1
       @ (True, fallback_item handler page rendered_anchor role a)
       # (map (\<lambda>anchor. (True, fallback_item handler page rendered_anchor role anchor)) as2
          @ concat (map (heading_registrations handler page) hs2))"
  using assms by (simp add: heading_registrations_def registrations_before_def)

lemma fallback_item_name [simp]:
  "item_name (fallback_item handler page rendered_anchor role anchor) = anchor"
  by (simp add: fallback_item_def)

lemma insert_rendered_calls:
  assumes law: "\<And>item items n.
     contains (inventory_register env item items) n = (contains items n \<or> n = item_name item)"
    and page: "current_page env = Some page"
    and ids: "\<forall>h \<in> set (get_headings handler data). map_of (attrib h) ''id'' \<noteq> None"
  shows "\<exists>parent' st'. insert_rendered env parent html handler data st = Inr (parent', st')
     \<and> register_calls st'
         = register_calls st
           @ guarded_calls
               (concat (map (heading_registrations handler page) (get_headings handler data)))
               (names (inventory st))
     \<and> names (inventory st')
         = names (inventory st)
           \<union> item_name ` set (guarded_calls
                (concat (map (heading_registrations handler page) (get_headings handler data)))
                (names (inventory st)))"
proof -
  let ?st1 = "st\<lparr>html_stash := html_stash st @ [html]\<rparr>"
  from register_headings_calls[OF law ids, of handler page ?st1] obtain st'
    where "register_headings env handler page (get_headings handler data) ?st1 = Inr st'"
      and "register_calls st'
         = register_calls ?st1
           @ guarded_calls
               (concat (map (heading_registrations handler page) (get_headings handler data)))
               (names (inventory ?st1))"
      and "names (inventory st')
         = names (inventory ?st1)
           \<union> item_name ` set (guarded_calls
                (concat (map (heading_registrations handler page) (get_headings handler data)))
                (names (inventory ?st1)))"
    by blast
  with page show ?thesis
    by (simp add: insert_rendered_def Let_def)
qed

text \<open>
  Claim C4: in a run of \<^verbatim>\<open>run\<close> on a matched block, with a current page and headings that
  all have an id, the calls of \<^verbatim>\<open>inventory.register\<close> are, heading by heading: the
  registration of the heading's id with priority 1 when the heading has a role marker,
  and then, when the collection of that id with the backend's fallback configuration
  succeeds, a registration with priority 2, the heading's role and domain and the uri
  \<open>page#id\<close> for every name of \<^verbatim>\<open>get_anchors\<close> that the inventory does not hold at that
  moment, and no call for a name that it holds. The last part of the statement says so for
  one name \<open>a\<close> of one heading: after the calls made before the iteration reaches \<open>a\<close>, the
  next call is the registration of \<open>a\<close> exactly when \<open>a\<close> is not among the names present
  at that moment. The inventory's \<open>register\<close> is any function that makes the registered
  name present and leaves the presence of every other name as it is.
\<close>

theorem run_registers_fallback_anchors:
  assumes law: "\<And>item items n.
     contains (inventory_register env item items) n = (contains items n \<or> n = item_name item)"
    and page: "current_page env = Some page"
    and found: "matched (match_block block0 blocks1) = Some mt"
    and resolved: "process_block env (m_name mt) (yaml_block (match_block block0 blocks1))
                     (int (count_list (m_heading mt) CHR ''#'')) st
                   = Inr (html, handler, data, st1)"
    and ids: "\<forall>h \<in> set (get_headings handler data). map_of (attrib h) ''id'' \<noteq> None"
  shows "\<exists>parent' st'.
     run env parent (block0 # blocks1) st
       = Inr (parent',
              requeue (remainder (match_block block0 blocks1))
                (pending_blocks (match_block block0 blocks1)),
              st')
     \<and> register_calls st'
         = register_calls st1
           @ guarded_calls
               (concat (map (heading_registrations handler page) (get_headings handler data)))
               (names (inventory st1))
     \<and> names (inventory st')
         = names (inventory st1)
           \<union> item_name ` set (guarded_calls
               (concat (map (heading_registrations handler page) (get_headings handler data)))
               (names (inventory st1)))
     \<and> (\<forall>hs1 h hs2 rendered_anchor role data_object as1 a as2.
          get_headings handler data = hs1 @ h # hs2
          \<and> map_of (attrib h) ''id'' = Some rendered_anchor
          \<and> map_of (attrib h) ''data-role'' = Some role
          \<and> collect handler rendered_anchor (Dict (fallback_config handler)) = Inr data_object
          \<and> get_anchors handler data_object = as1 @ a # as2
          \<longrightarrow> (let earlier = guarded_calls
                       (registrations_before handler page hs1 rendered_anchor role as1)
                       (names (inventory st1))
               in \<exists>later.
                    register_calls st'
                      = register_calls st1 @ earlier
                        @ (if a \<in> names (inventory st1) \<union> item_name ` set earlier then []
                           else [fallback_item handler page rendered_anchor role a])
                        @ later))"
proof -
  let ?s = "match_block block0 blocks1"
  let ?parent1 = "case prefix_block ?s of
                    Some leading \<Rightarrow> parseBlocks env parent [leading]
                  | None \<Rightarrow> parent"
  let ?all = "concat (map (heading_registrations handler page) (get_headings handler data))"
  from insert_rendered_calls[OF law page ids, of ?parent1 html st1] obtain parent' st'
    where inserted: "insert_rendered env ?parent1 html handler data st1 = Inr (parent', st')"
      and calls: "register_calls st'
         = register_calls st1 @ guarded_calls ?all (names (inventory st1))"
      and present: "names (inventory st')
         = names (inventory st1) \<union> item_name ` set (guarded_calls ?all (names (inventory st1)))"
    by blast
  from found resolved inserted
  have ran: "run env parent (block0 # blocks1) st
      = Inr (parent', requeue (remainder ?s) (pending_blocks ?s), st')"
    by (simp add: run_def Let_def)
  have at: "let earlier = guarded_calls
                       (registrations_before handler page hs1 rendered_anchor role as1)
                       (names (inventory st1))
               in \<exists>later.
                    register_calls st'
                      = register_calls st1 @ earlier
                        @ (if a \<in> names (inventory st1) \<union> item_name ` set earlier then []
                           else [fallback_item handler page rendered_anchor role a])
                        @ later"
    if "get_headings handler data = hs1 @ h # hs2"
      and "map_of (attrib h) ''id'' = Some rendered_anchor"
      and "map_of (attrib h) ''data-role'' = Some role"
      and "collect handler rendered_anchor (Dict (fallback_config handler)) = Inr data_object"
      and "get_anchors handler data_object = as1 @ a # as2"
    for hs1 h hs2 rendered_anchor role data_object as1 a as2
  proof -
    have "guarded_calls ?all (names (inventory st1))
        = guarded_calls (registrations_before handler page hs1 rendered_anchor role as1)
            (names (inventory st1))
          @ (if a \<in> names (inventory st1)
                   \<union> item_name ` set (guarded_calls
                       (registrations_before handler page hs1 rendered_anchor role as1)
                       (names (inventory st1)))
             then [] else [fallback_item handler page rendered_anchor role a])
          @ guarded_calls
              (map (\<lambda>anchor. (True, fallback_item handler page rendered_anchor role anchor)) as2
               @ concat (map (heading_registrations handler page) hs2))
              (insert a (names (inventory st1)
                 \<union> item_name ` set (guarded_calls
                     (registrations_before handler page hs1 rendered_anchor role as1)
                     (names (inventory st1)))))"
      by (simp only: heading_registrations_at[OF that] guarded_calls_at fallback_item_name)
    with calls show ?thesis
      by (simp only: Let_def append_assoc) (rule exI, rule refl)
  qed
  have positions: "\<forall>hs1 h hs2 rendered_anchor role data_object as1 a as2.
          get_headings handler data = hs1 @ h # hs2
          \<and> map_of (attrib h) ''id'' = Some rendered_anchor
          \<and> map_of (attrib h) ''data-role'' = Some role
          \<and> collect handler rendered_anchor (Dict (fallback_config handler)) = Inr data_object
          \<and> get_anchors handler data_object = as1 @ a # as2
          \<longrightarrow> (let earlier = guarded_calls
                       (registrations_before handler page hs1 rendered_anchor role as1)
                       (names (inventory st1))
               in \<exists>later.
                    register_calls st'
                      = register_calls st1 @ earlier
                        @ (if a \<in> names (inventory st1) \<union> item_name ` set earlier then []
                           else [fallback_item handler page rendered_anchor role a])
                        @ later)"
    by (intro allI impI, elim conjE, rule at)
  from ran calls present positions show ?thesis
    by (intro exI[of _ parent'] exI[of _ st'] conjI)
qed

lemma decimal_0: "decimal 0 = ''0''"
  by (subst decimal.simps) simp

theorem run_registers_fallback_anchors_witness:
  "run sample_env (Element ''body'' [] None None []) [''::: a.b'']
      (init [(''old.a.b'',
              \<lparr>item_name = ''old.a.b'', item_domain = ''py'', item_role = ''module'',
                 item_priority = 1, item_uri = ''other/#x''\<rparr>)])
     = Inr (Element ''body'' [] None None
              [Element ''div'' [(''class'', ''mkdocstrings'')]
                 (Some (CHR 0x02 # ''wzxhzdk:0'' @ [CHR 0x03])) None
                 [Element ''h2'' [(''id'', ''a.b''), (''data-role'', ''class'')]
                    (Some ''a.b'') None []]],
            [],
            \<lparr>updated_envs = {''python''}, env_updates = [''python''],
               html_stash = [''<h2>a.b</h2>''],
               autorefs_anchors = [(''api/'', ''a.b'')],
               register_calls =
                 [\<lparr>item_name = ''a.b'', item_domain = ''py'', item_role = ''class'',
                     item_priority = 1, item_uri = ''api/#a.b''\<rparr>,
                  \<lparr>item_name = ''alias.a.b'', item_domain = ''py'', item_role = ''class'',
                     item_priority = 2, item_uri = ''api/#a.b''\<rparr>],
               inventory =
                 [(''old.a.b'',
                   \<lparr>item_name = ''old.a.b'', item_domain = ''py'', item_role = ''module'',
                      item_priority = 1, item_uri = ''other/#x''\<rparr>),
                  (''a.b'',
                   \<lparr>item_name = ''a.b'', item_domain = ''py'', item_role = ''class'',
                      item_priority = 1, item_uri = ''api/#a.b''\<rparr>),
                  (''alias.a.b'',
                   \<lparr>item_name = ''alias.a.b'', item_domain = ''py'', item_role = ''class'',
                      item_priority = 2, item_uri = ''api/#a.b''\<rparr>)]\<rparr>)"
proof -
  let ?old = "\<lparr>item_name = ''old.a.b'', item_domain = ''py'', item_role = ''module'',
                 item_priority = 1, item_uri = ''other/#x''\<rparr>"
  let ?st1 = "\<lparr>updated_envs = {''python''}, env_updates = [''python''], html_stash = [],
                autorefs_anchors = [], register_calls = [],
                inventory = [(''old.a.b'', ?old)]\<rparr>"
  have law: "\<And>item items n.
     contains (inventory_register sample_env item items) n
       = (contains items n \<or> n = item_name item)"
    by (simp add: sample_env_simps contains_register_first_wins)
  have page: "current_page sample_env = Some ''api/''"
    by (simp add: sample_env_simps)
  have split: "match_block ''::: a.b'' []
      = \<lparr>prefix_block = None,
         matched = Some \<lparr>m_start = 0, m_end = 7, m_heading = [], m_name = ''a.b''\<rparr>,
         yaml_block = [], remainder = [], pending_blocks = []\<rparr>"
    by (simp add: match_block_def regex_search_def match_line_def match_after_marker_def
        match_name_def startswith_def detab_def)
  have found: "matched (match_block ''::: a.b'' [])
      = Some \<lparr>m_start = 0, m_end = 7, m_heading = [], m_name = ''a.b''\<rparr>"
    by (simp add: split)
  have resolved: "process_block sample_env
        (m_name \<lparr>m_start = 0, m_end = 7, m_heading = [], m_name = ''a.b''\<rparr>)
        (yaml_block (match_block ''::: a.b'' []))
        (int (count_list (m_heading \<lparr>m_start = 0, m_end = 7, m_heading = [],
                                      m_name = ''a.b''\<rparr>) CHR ''#''))
        (init [(''old.a.b'', ?old)])
      = Inr (''<h2>a.b</h2>'', sample_handler, ''a.b'', ?st1)"
    by (simp add: split process_block_def load_config_def resolve_block_def update_env_def
        build_options_def py_or_def init_def Let_def sample_env_simps sample_safe_load_def
        sample_handler_simps)
  have ids: "\<forall>h \<in> set (get_headings sample_handler ''a.b''). map_of (attrib h) ''id'' \<noteq> None"
    by (simp add: sample_handler_simps)
  from run_registers_fallback_anchors
    [OF law page found resolved ids, of "Element ''body'' [] None None []"]
  obtain parent' st'
    where ran: "run sample_env (Element ''body'' [] None None []) [''::: a.b'']
                  (init [(''old.a.b'', ?old)])
                = Inr (parent', requeue (remainder (match_block ''::: a.b'' []))
                         (pending_blocks (match_block ''::: a.b'' [])), st')"
    by (elim exE conjE) (rule that)
  have inserted: "insert_rendered sample_env (Element ''body'' [] None None [])
        ''<h2>a.b</h2>'' sample_handler ''a.b'' ?st1
      = Inr (Element ''body'' [] None None
              [Element ''div'' [(''class'', ''mkdocstrings'')]
                 (Some (CHR 0x02 # ''wzxhzdk:0'' @ [CHR 0x03])) None
                 [Element ''h2'' [(''id'', ''a.b''), (''data-role'', ''class'')]
                    (Some ''a.b'') None []]],
            \<lparr>updated_envs = {''python''}, env_updates = [''python''],
               html_stash = [''<h2>a.b</h2>''],
               autorefs_anchors = [(''api/'', ''a.b'')],
               register_calls =
                 [\<lparr>item_name = ''a.b'', item_domain = ''py'', item_role = ''class'',
                     item_priority = 1, item_uri = ''api/#a.b''\<rparr>,
                  \<lparr>item_name = ''alias.a.b'', item_domain = ''py'', item_role = ''class'',
                     item_priority = 2, item_uri = ''api/#a.b''\<rparr>],
               inventory =
                 [(''old.a.b'', ?old),
                  (''a.b'',
                   \<lparr>item_name = ''a.b'', item_domain = ''py'', item_role = ''class'',
                      item_priority = 1, item_uri = ''api/#a.b''\<rparr>),
                  (''alias.a.b'',
                   \<lparr>item_name = ''alias.a.b'', item_domain = ''py'', item_role = ''class'',
                      item_priority = 2, item_uri = ''api/#a.b''\<rparr>)]\<rparr>)"
    by (simp add: insert_rendered_def register_heading_def register_def register_first_wins_def
        contains_def append_child_def Let_def sample_env_simps sample_handler_simps
        decimal_0)
  from resolved have resolved': "process_block sample_env ''a.b'' [] 0 (init [(''old.a.b'', ?old)])
      = Inr (''<h2>a.b</h2>'', sample_handler, ''a.b'', ?st1)"
    by (simp add: split)
  have computed: "run sample_env (Element ''body'' [] None None []) [''::: a.b'']
      (init [(''old.a.b'', ?old)])
    = (case insert_rendered sample_env (Element ''body'' [] None None [])
              ''<h2>a.b</h2>'' sample_handler ''a.b'' ?st1 of
         Inl (e, st2) \<Rightarrow> Inl (e, Element ''body'' [] None None [], [], st2)
       | Inr (parent2, st2) \<Rightarrow> Inr (parent2, [], st2))"
    by (simp add: run_def split resolved' requeue_def Let_def del: One_nat_def
        cong: sum.case_cong prod.case_cong)
  from ran computed show ?thesis
    by (simp only: inserted sum.case prod.case)
qed

section \<open>Properties of the instruction matcher\<close>

lemma match_block_example:
  "match_block ''prefix\<newline>::: a.b\<newline>    opt: 1\<newline>suffix'' blocks =
     \<lparr>prefix_block = Some ''prefix\<newline>'',
      matched = Some \<lparr>m_start = 7, m_end = 14, m_heading = [], m_name = ''a.b''\<rparr>,
      yaml_block = ''\<newline>opt: 1'', remainder = ''suffix'', pending_blocks = blocks\<rparr>"
  by (simp add: match_block_def regex_search_def match_line_def match_after_marker_def
      match_name_def startswith_def detab_def is_space_def)

text \<open>
  Claim C5, as stated: on the block \<^verbatim>\<open>"prefix\n::: a.b\n    opt: 1\nsuffix"\<close> the block given
  back to the generic parser is \<^verbatim>\<open>"prefix"\<close> and the configuration text is \<^verbatim>\<open>"opt: 1"\<close>.
  The slice \<^verbatim>\<open>block[:match.start()]\<close> keeps the newline that ends the prefix, and the
  slice \<^verbatim>\<open>block[match.end():]\<close> starts at the newline that ends the marker line, which
  \<^verbatim>\<open>detab\<close> keeps as an empty first line.
\<close>

theorem run_prefix_counterexample:
  "\<not> (prefix_block (match_block ''prefix\<newline>::: a.b\<newline>    opt: 1\<newline>suffix'' [])
        = Some ''prefix''
      \<and> yaml_block (match_block ''prefix\<newline>::: a.b\<newline>    opt: 1\<newline>suffix'' [])
        = ''opt: 1'')"
  by (simp add: match_block_example)

text \<open>
  Claim C5, amended: on that block the text \<^verbatim>\<open>"prefix\n"\<close> is handed to the generic parser
  as a block of its own, the identifier is \<^verbatim>\<open>"a.b"\<close> with heading level 0 and the
  configuration text \<^verbatim>\<open>"\nopt: 1"\<close> (one level of indentation removed, after the empty
  rest of the marker line), and, when the block resolver and the insertion raise nothing,
  \<^verbatim>\<open>"suffix"\<close> is the new first pending block, before the blocks that were pending. An
  exception of the resolver or of the insertion leaves the pending blocks without it.
\<close>

theorem run_prefix_example:
  "match_block ''prefix\<newline>::: a.b\<newline>    opt: 1\<newline>suffix'' blocks =
     \<lparr>prefix_block = Some ''prefix\<newline>'',
      matched = Some \<lparr>m_start = 7, m_end = 14, m_heading = [], m_name = ''a.b''\<rparr>,
      yaml_block = ''\<newline>opt: 1'', remainder = ''suffix'', pending_blocks = blocks\<rparr>
   \<and> run env parent (''prefix\<newline>::: a.b\<newline>    opt: 1\<newline>suffix'' # blocks) st =
     (case process_block env ''a.b'' ''\<newline>opt: 1'' 0 st of
        Inl (e, st1) \<Rightarrow> Inl (e, parseBlocks env parent [''prefix\<newline>''], blocks, st1)
      | Inr (html, handler, data, st1) \<Rightarrow>
          (case insert_rendered env (parseBlocks env parent [''prefix\<newline>''])
                  html handler data st1 of
             Inl (e, st2) \<Rightarrow> Inl (e, parseBlocks env parent [''prefix\<newline>''], blocks, st2)
           | Inr (parent2, st2) \<Rightarrow> Inr (parent2, ''suffix'' # blocks, st2)))"
  by (simp add: match_block_example run_def requeue_def Let_def
      cong: sum.case_cong prod.case_cong)

theorem run_prefix_example_witness:
  "run sample_env (Element ''div'' [] None None [])
      [''prefix\<newline>::: a.b\<newline>    opt: 1\<newline>suffix'', ''next''] (init [])
     = Inr (Element ''div'' [] None None
              [Element ''p'' [] (Some ''prefix\<newline>'') None [],
               Element ''div'' [(''class'', ''mkdocstrings'')]
                 (Some (CHR 0x02 # ''wzxhzdk:0'' @ [CHR 0x03])) None
                 [Element ''h2'' [(''id'', ''a.b''), (''data-role'', ''class'')]
                    (Some ''a.b'') None []]],
            [''suffix'', ''next''],
            \<lparr>updated_envs = {''python''}, env_updates = [''python''],
               html_stash = [''<h2>a.b</h2>''],
               autorefs_anchors = [(''api/'', ''a.b'')],
               register_calls =
                 [\<lparr>item_name = ''a.b'', item_domain = ''py'', item_role = ''class'',
                     item_priority = 1, item_uri = ''api/#a.b''\<rparr>,
                  \<lparr>item_name = ''alias.a.b'', item_domain = ''py'', item_role = ''class'',
                     item_priority = 2, item_uri = ''api/#a.b''\<rparr>,
                  \<lparr>item_name = ''old.a.b'', item_domain = ''py'', item_role = ''class'',
                     item_priority = 2, item_uri = ''api/#a.b''\<rparr>],
               inventory =
                 [(''a.b'',
                   \<lparr>item_name = ''a.b'', item_domain = ''py'', item_role = ''class'',
                      item_priority = 1, item_uri = ''api/#a.b''\<rparr>),
                  (''alias.a.b'',
                   \<lparr>item_name = ''alias.a.b'', item_domain = ''py'', item_role = ''class'',
                      item_priority = 2, item_uri = ''api/#a.b''\<rparr>),
                  (''old.a.b'',
                   \<lparr>item_name = ''old.a.b'', item_domain = ''py'', item_role = ''class'',
                      item_priority = 2, item_uri = ''api/#a.b''\<rparr>)]\<rparr>)"
proof -
  have resolved: "process_block sample_env ''a.b'' ''\<newline>opt: 1'' 0 (init [])
      = Inr (''<h2>a.b</h2>'', sample_handler, ''a.b'',
             \<lparr>updated_envs = {''python''}, env_updates = [''python''], html_stash = [],
                autorefs_anchors = [], register_calls = [], inventory = []\<rparr>)"
    by (simp add: process_block_def load_config_def resolve_block_def update_env_def
        build_options_def py_or_def init_def Let_def sample_env_simps sample_safe_load_def
        sample_handler_simps)
  have reparsed: "parseBlocks sample_env (Element ''div'' [] None None []) [''prefix\<newline>'']
      = Element ''div'' [] None None [Element ''p'' [] (Some ''prefix\<newline>'') None []]"
    by (simp add: sample_env_simps append_child_def)
  have inserted: "insert_rendered sample_env
        (Element ''div'' [] None None [Element ''p'' [] (Some ''prefix\<newline>'') None []])
        ''<h2>a.b</h2>'' sample_handler ''a.b''
        \<lparr>updated_envs = {''python''}, env_updates = [''python''], html_stash = [],
           autorefs_anchors = [], register_calls = [], inventory = []\<rparr>
      = Inr (Element ''div'' [] None None
              [Element ''p'' [] (Some ''prefix\<newline>'') None [],
               Element ''div'' [(''class'', ''mkdocstrings'')]
                 (Some (CHR 0x02 # ''wzxhzdk:0'' @ [CHR 0x03])) None
                 [Element ''h2'' [(''id'', ''a.b''), (''data-role'', ''class'')]
                    (Some ''a.b'') None []]],
            \<lparr>updated_envs = {''python''}, env_updates = [''python''],
               html_stash = [''<h2>a.b</h2>''],
               autorefs_anchors = [(''api/'', ''a.b'')],
               register_calls =
                 [\<lparr>item_name = ''a.b'', item_domain = ''py'', item_role = ''class'',
                     item_priority = 1, item_uri = ''api/#a.b''\<rparr>,
                  \<lparr>item_name = ''alias.a.b'', item_domain = ''py'', item_role = ''class'',
                     item_priority = 2, item_uri = ''api/#a.b''\<rparr>,
                  \<lparr>item_name = ''old.a.b'', item_domain = ''py'', item_role = ''class'',
                     item_priority = 2, item_uri = ''api/#a.b''\<rparr>],
               inventory =
                 [(''a.b'',
                   \<lparr>item_name = ''a.b'', item_domain = ''py'', item_role = ''class'',
                      item_priority = 1, item_uri = ''api/#a.b''\<rparr>),
                  (''alias.a.b'',
                   \<lparr>item_name = ''alias.a.b'', item_domain = ''py'', item_role = ''class'',
                      item_priority = 2, item_uri = ''api/#a.b''\<rparr>),
                  (''old.a.b'',
                   \<lparr>item_name = ''old.a.b'', item_domain = ''py'', item_role = ''class'',
                      item_priority = 2, item_uri = ''api/#a.b''\<rparr>)]\<rparr>)"
    by (simp add: insert_rendered_def register_heading_def register_def register_first_wins_def
        contains_def append_child_def Let_def sample_env_simps sample_handler_simps
        decimal_0)
  from run_prefix_example [of "[''next'']" sample_env "Element ''div'' [] None None []" "init []"]
  have "run sample_env (Element ''div'' [] None None [])
      [''prefix\<newline>::: a.b\<newline>    opt: 1\<newline>suffix'', ''next''] (init [])
    = (case process_block sample_env ''a.b'' ''\<newline>opt: 1'' 0 (init []) of
        Inl (e, st1) \<Rightarrow>
          Inl (e, parseBlocks sample_env (Element ''div'' [] None None []) [''prefix\<newline>''],
               [''next''], st1)
      | Inr (html, handler, data, st1) \<Rightarrow>
          (case insert_rendered sample_env
                  (parseBlocks sample_env (Element ''div'' [] None None []) [''prefix\<newline>''])
                  html handler data st1 of
             Inl (e, st2) \<Rightarrow>
               Inl (e, parseBlocks sample_env (Element ''div'' [] None None [])
                         [''prefix\<newline>''], [''next''], st2)
           | Inr (parent2, st2) \<Rightarrow> Inr (parent2, ''suffix'' # [''next''], st2)))"
    by (elim conjE)
  then show ?thesis
    by (simp only: resolved reparsed inserted sum.case prod.case)
qed

end
